theory Spec2Isabelle
  imports Complex_Main "HOL-Library.Sublist"
begin

section \<open>Text: Python strings as lists of code points\<close>

text \<open>
  A Python \<open>str\<close> is a sequence of Unicode code points, so a text is a list of naturals and
  \<open>len\<close> is \<open>length\<close>.  Literals of the source are written \<open>U ''...''\<close>.
\<close>

type_synonym ustr = "nat list"

definition U :: "string \<Rightarrow> ustr" where
  "U s = map of_char s"

section \<open>Messages and verdicts\<close>

text \<open>
  Timestamps and confidences are Python floats; they are rationals here.  The confidences the
  detector can reach are \<open>0, 0.4, 0.5, 0.6, 0.7, 0.75, 0.8, 0.85, 0.9, 0.95\<close>, and on these
  the float comparisons with \<open>0.7\<close> agree with the exact ones.
\<close>

datatype reason =
  duplicate | rapid_fire | promo_link | pump_promo | crypto_scam
  | excessive_caps | repetitive_chars | excessive_emojis

record verdict =
  is_spam :: bool
  reason :: "reason option"
  reasons :: "reason list"
  confidence :: rat

datatype sentiment = bullish | bearish | neutral

datatype vibe = funny | uplifting

record chat_msg =
  c_message :: ustr
  c_author :: ustr
  c_isChatOwner :: bool
  c_isChatModerator :: bool

text \<open>
  The result dict of \<open>process_message\<close>, without its \<open>timestamp\<close> string (a second reading of
  the clock that nothing consults).
\<close>

record processed =
  p_text :: ustr
  p_author :: ustr
  p_topic :: "ustr option"
  p_sentiment :: sentiment
  p_isQuestion :: bool
  p_vibe :: "vibe option"
  p_spam :: verdict

section \<open>What the program takes from outside\<close>

text \<open>
  Python's built-in \<open>hash\<close> on strings (salted per process), the key set of
  \<open>emoji.EMOJI_DATA\<close> restricted to single code points, the emoji-code expansion
  \<open>convert_emoji_codes\<close> (it ends in \<open>emoji.emojize\<close>), the union of the question patterns,
  and the three calls that end in the completion service: the yes/no spam check, the vibe of
  one text (\<open>None\<close> for \<open>none\<close>, no answer or a failure) and the pulse summary of a buffer.

  Python's strings and regular expressions follow the Unicode database.  On ASCII the
  character classes and case mappings are written out below; beyond ASCII they are taken from
  the environment: which code points above 127 are word characters (\<open>\w\<close>, which also decides
  \<open>\b\<close>), decimal digits (\<open>\d\<close>), letters (\<open>str.isalpha\<close>) and upper-case letters
  (\<open>str.isupper\<close>); what \<open>str.lower()\<close> and \<open>str.upper()\<close> return for a string that has a
  code point above 127; and whether, under \<open>re.IGNORECASE\<close>, a literal character of a pattern
  matches a code point above 127.  Every property below holds for all such tables.
\<close>

record env =
  py_hash :: "ustr \<Rightarrow> int"
  EMOJI_DATA :: "nat \<Rightarrow> bool"
  convert_emoji_codes :: "ustr \<Rightarrow> ustr"
  is_question :: "ustr \<Rightarrow> bool"
  llm_spam_check :: "ustr \<Rightarrow> bool"
  classify_vibe_single :: "ustr \<Rightarrow> vibe option"
  generate_pulse_summary :: "processed list \<Rightarrow> ustr option"
  uni_word :: "nat \<Rightarrow> bool"
  uni_digit :: "nat \<Rightarrow> bool"
  uni_isalpha :: "nat \<Rightarrow> bool"
  uni_isupper :: "nat \<Rightarrow> bool"
  uni_lower :: "ustr \<Rightarrow> ustr"
  uni_upper :: "ustr \<Rightarrow> ustr"
  uni_ignorecase :: "nat \<Rightarrow> nat \<Rightarrow> bool"

section \<open>Character classes and string functions\<close>

definition is_AZ :: "nat \<Rightarrow> bool" where
  "is_AZ c = (65 \<le> c \<and> c \<le> 90)"

definition is_az :: "nat \<Rightarrow> bool" where
  "is_az c = (97 \<le> c \<and> c \<le> 122)"

text \<open>The class \<open>\d\<close>.\<close>

definition is_digit :: "env \<Rightarrow> nat \<Rightarrow> bool" where
  "is_digit e c = (if c < 128 then 48 \<le> c \<and> c \<le> 57 else uni_digit e c)"

text \<open>\<open>c.isalpha()\<close> and \<open>c.isupper()\<close> for one character.\<close>

definition isalpha :: "env \<Rightarrow> nat \<Rightarrow> bool" where
  "isalpha e c = (if c < 128 then is_AZ c \<or> is_az c else uni_isalpha e c)"

definition isupper :: "env \<Rightarrow> nat \<Rightarrow> bool" where
  "isupper e c = (if c < 128 then is_AZ c else uni_isupper e c)"

text \<open>The class \<open>\w\<close> of the regular expressions.\<close>

definition is_word :: "env \<Rightarrow> nat \<Rightarrow> bool" where
  "is_word e c =
     (if c < 128 then is_AZ c \<or> is_az c \<or> (48 \<le> c \<and> c \<le> 57) \<or> c = 95 else uni_word e c)"

text \<open>What \<open>str.strip()\<close> removes: the code points for which \<open>str.isspace()\<close> holds.\<close>

definition isspace :: "nat \<Rightarrow> bool" where
  "isspace c = ((9 \<le> c \<and> c \<le> 13) \<or> (28 \<le> c \<and> c \<le> 32) \<or> c = 133 \<or> c = 160
      \<or> c = 5760 \<or> (8192 \<le> c \<and> c \<le> 8202) \<or> c = 8232 \<or> c = 8233 \<or> c = 8239
      \<or> c = 8287 \<or> c = 12288)"

definition lower_cp :: "nat \<Rightarrow> nat" where
  "lower_cp c = (if is_AZ c then c + 32 else c)"

definition upper_cp :: "nat \<Rightarrow> nat" where
  "upper_cp c = (if is_az c then c - 32 else c)"

definition ascii :: "ustr \<Rightarrow> bool" where
  "ascii s = list_all (\<lambda>c. c < 128) s"

text \<open>\<open>s.lower()\<close> and \<open>s.upper()\<close>: character by character on an ASCII string.\<close>

definition lower :: "env \<Rightarrow> ustr \<Rightarrow> ustr" where
  "lower e s = (if ascii s then map lower_cp s else uni_lower e s)"

definition upper :: "env \<Rightarrow> ustr \<Rightarrow> ustr" where
  "upper e s = (if ascii s then map upper_cp s else uni_upper e s)"

definition strip :: "ustr \<Rightarrow> ustr" where
  "strip s = rev (dropWhile isspace (rev (dropWhile isspace s)))"

text \<open>\<open>needle in text\<close> on strings: the needle occurs as a contiguous block.\<close>

fun contains :: "ustr \<Rightarrow> ustr \<Rightarrow> bool" where
  "contains [] needle = (needle = [])"
| "contains (c # cs) needle = (prefix needle (c # cs) \<or> contains cs needle)"

text \<open>\<open>re.findall(r'\w+', s)\<close>: the maximal runs of word characters, left to right.\<close>

fun word_runs_acc :: "env \<Rightarrow> ustr \<Rightarrow> ustr \<Rightarrow> ustr list" where
  "word_runs_acc e acc [] = (if acc = [] then [] else [acc])"
| "word_runs_acc e acc (c # cs) =
     (if is_word e c then word_runs_acc e (acc @ [c]) cs
      else if acc = [] then word_runs_acc e [] cs
      else acc # word_runs_acc e [] cs)"

definition findall_words :: "env \<Rightarrow> ustr \<Rightarrow> ustr list" where
  "findall_words e s = word_runs_acc e [] s"

section \<open>The spam patterns\<close>

text \<open>
  The three spam expressions are alternations of branches built from literal text, \<open>.*\<close> and
  \<open>\d+\<close>, compiled with \<open>re.IGNORECASE\<close>.  A branch is a list of atoms; \<open>re.search\<close> asks
  whether some branch matches at some position.  The literals of the source are in lower case:
  a literal character matches an ASCII character of the text whose lower case it is, and a
  code point above 127 as the environment says; \<open>.\<close> matches everything but a newline.
\<close>

datatype atom = Lit string | DotStar | Digits

definition ic_match :: "env \<Rightarrow> nat \<Rightarrow> nat \<Rightarrow> bool" where
  "ic_match e l c = (if c < 128 then lower_cp c = l else uni_ignorecase e l c)"

fun lit_match :: "env \<Rightarrow> ustr \<Rightarrow> ustr \<Rightarrow> bool" where
  "lit_match e [] s = True"
| "lit_match e (l # ls) [] = False"
| "lit_match e (l # ls) (c # cs) = (ic_match e l c \<and> lit_match e ls cs)"

fun match_here :: "env \<Rightarrow> atom list \<Rightarrow> ustr \<Rightarrow> bool" where
  "match_here e [] s = True"
| "match_here e (Lit l # r) s =
     (lit_match e (U l) s \<and> match_here e r (drop (length l) s))"
| "match_here e (DotStar # r) [] = match_here e r []"
| "match_here e (DotStar # r) (c # cs) =
     (match_here e r (c # cs) \<or> (c \<noteq> 10 \<and> match_here e (DotStar # r) cs))"
| "match_here e (Digits # r) [] = False"
| "match_here e (Digits # r) (c # cs) =
     (is_digit e c \<and> (match_here e r cs \<or> match_here e (Digits # r) cs))"

fun search_branch :: "env \<Rightarrow> atom list \<Rightarrow> ustr \<Rightarrow> bool" where
  "search_branch e p [] = match_here e p []"
| "search_branch e p (c # cs) = (match_here e p (c # cs) \<or> search_branch e p cs)"

definition re_search :: "env \<Rightarrow> atom list list \<Rightarrow> ustr \<Rightarrow> bool" where
  "re_search e branches s = (\<exists>p \<in> set branches. search_branch e p s)"

section \<open>The tables of the two backends\<close>

subsection \<open>Tables of chat_viz_backend.py\<close>

text \<open>\<open>COMPANY_NAMES\<close> is a dict: its items in insertion order. The table is the same in both files.\<close>

definition COMPANY_NAMES :: "(string \<times> string) list" where
  "COMPANY_NAMES =
    [(''TESLA'', ''TSLA''), (''NVIDIA'', ''NVDA''), (''APPLE'', ''AAPL''),
     (''MICROSOFT'', ''MSFT''), (''AMAZON'', ''AMZN''), (''GOOGLE'', ''GOOGL''),
     (''ALPHABET'', ''GOOGL''), (''PALANTIR'', ''PLTR''), (''COINBASE'', ''COIN''),
     (''ROBINHOOD'', ''HOOD''), (''GAMESTOP'', ''GME''), (''SUPERMICRO'', ''SMCI''),
     (''BROADCOM'', ''AVGO''), (''MICRON'', ''MU''), (''QUALCOMM'', ''QCOM''),
     (''NETFLIX'', ''NFLX''), (''DISNEY'', ''DIS''), (''PAYPAL'', ''PYPL''),
     (''SNOWFLAKE'', ''SNOW''), (''CROWDSTRIKE'', ''CRWD''), (''ROCKETLAB'', ''RKLB''),
     (''ROCKET'', ''RKLB''), (''SPACEX'', ''SPACEX''), (''DATADOG'', ''DDOG''),
     (''SALESFORCE'', ''CRM''), (''ORACLE'', ''ORCL''), (''ADOBE'', ''ADBE''),
     (''INTEL'', ''INTC''), (''COSTCO'', ''COST''), (''WALMART'', ''WMT''),
     (''TARGET'', ''TGT''), (''STARBUCKS'', ''SBUX''), (''MCDONALDS'', ''MCD''),
     (''CHIPOTLE'', ''CMG''), (''BOEING'', ''BA''), (''LOCKHEED'', ''LMT'')]"

definition KNOWN_TICKERS :: "string set" where
  "KNOWN_TICKERS =
    {''AAPL'', ''MSFT'', ''GOOGL'', ''GOOG'', ''AMZN'', ''NVDA'', ''META'', ''TSLA'',
     ''BRK'', ''BRKB'', ''TSM'', ''AVGO'', ''LLY'', ''JPM'', ''UNH'', ''V'', ''MA'',
     ''XOM'', ''JNJ'', ''WMT'', ''AMD'', ''INTC'', ''MU'', ''QCOM'', ''TXN'', ''AMAT'',
     ''LRCX'', ''KLAC'', ''ADI'', ''MRVL'', ''NXPI'', ''MCHP'', ''ON'', ''SWKS'', ''QRVO'',
     ''MPWR'', ''SMCI'', ''ARM'', ''ASML'', ''SNPS'', ''CDNS'', ''ANSS'', ''WOLF'',
     ''SLAB'', ''CRUS'', ''MKSI'', ''ENTG'', ''ACLS'', ''COHR'', ''IPGP'', ''CRM'',
     ''ORCL'', ''ADBE'', ''NOW'', ''INTU'', ''PANW'', ''CRWD'', ''SNOW'', ''DDOG'', ''ZS'',
     ''NET'', ''PLTR'', ''MDB'', ''ESTC'', ''SPLK'', ''TEAM'', ''OKTA'', ''ZM'', ''TWLO'',
     ''HUBS'', ''DOCU'', ''WDAY'', ''VEEV'', ''RNG'', ''BILL'', ''PATH'', ''DOCN'',
     ''CFLT'', ''MNDY'', ''GTLB'', ''S'', ''TENB'', ''CYBR'', ''FTNT'', ''RPD'', ''QLYS'',
     ''VRNS'', ''SAIL'', ''SMAR'', ''APPN'', ''IONQ'', ''RGTI'', ''QBTS'', ''QUBT'',
     ''ARQQ'', ''SOUN'', ''BBAI'', ''AI'', ''UPST'', ''CXAI'', ''NFLX'', ''SPOT'',
     ''ROKU'', ''TTD'', ''PINS'', ''SNAP'', ''RBLX'', ''U'', ''TTWO'', ''EA'', ''MTCH'',
     ''BMBL'', ''YELP'', ''TRIP'', ''EXPE'', ''BKNG'', ''ABNB'', ''UBER'', ''LYFT'',
     ''DASH'', ''GRUB'', ''DKNG'', ''PENN'', ''CHWY'', ''ETSY'', ''EBAY'', ''MELI'',
     ''SE'', ''SHOP'', ''SQ'', ''PYPL'', ''AFRM'', ''SOFI'', ''HOOD'', ''COIN'', ''LC'',
     ''MQ'', ''FOUR'', ''PAYO'', ''DLO'', ''STNE'', ''PAGS'', ''XP'', ''NU'', ''TOST'',
     ''FLYW'', ''OUST'', ''BAC'', ''WFC'', ''C'', ''GS'', ''MS'', ''SCHW'', ''BLK'',
     ''BX'', ''KKR'', ''APO'', ''ARES'', ''OWL'', ''TROW'', ''IVZ'', ''BEN'', ''AMG'',
     ''LPLA'', ''RJF'', ''SEIC'', ''USB'', ''PNC'', ''TFC'', ''MTB'', ''FITB'', ''KEY'',
     ''RF'', ''HBAN'', ''CFG'', ''ZION'', ''AXP'', ''COF'', ''DFS'', ''SYF'', ''ALLY'',
     ''NAVI'', ''SLM'', ''FCNCA'', ''WAL'', ''EWBC'', ''PFE'', ''ABBV'', ''MRK'', ''TMO'',
     ''ABT'', ''DHR'', ''BMY'', ''AMGN'', ''GILD'', ''VRTX'', ''REGN'', ''MRNA'', ''BNTX'',
     ''BIIB'', ''ILMN'', ''ISRG'', ''DXCM'', ''PODD'', ''ALGN'', ''IDXX'', ''IQV'',
     ''CRL'', ''RVTY'', ''TECH'', ''BIO'', ''A'', ''WAT'', ''ZBH'', ''SYK'', ''BSX'',
     ''MDT'', ''EW'', ''HCA'', ''CVS'', ''CI'', ''ELV'', ''HUM'', ''CNC'', ''MOH'',
     ''UHS'', ''SGRY'', ''DVA'', ''HIMS'', ''DOCS'', ''TDOC'', ''OSCR'', ''CLOV'',
     ''COST'', ''TGT'', ''HD'', ''LOW'', ''DLTR'', ''DG'', ''FIVE'', ''OLLI'', ''BJ'',
     ''BABA'', ''JD'', ''PDD'', ''CPNG'', ''W'', ''OSTK'', ''REAL'', ''CVNA'', ''CARG'',
     ''AN'', ''LAD'', ''KMX'', ''SIG'', ''ULTA'', ''SEPHORA'', ''EL'', ''TPR'', ''RL'',
     ''PVH'', ''VFC'', ''HBI'', ''UAA'', ''LULU'', ''NKE'', ''DECK'', ''CROX'', ''SKX'',
     ''WWW'', ''SHOO'', ''GPS'', ''ANF'', ''AEO'', ''URBN'', ''EXPR'', ''TLRD'', ''BURL'',
     ''TJX'', ''ROST'', ''WSM'', ''RH'', ''BBWI'', ''WRBY'', ''FIGS'', ''BROS'', ''SBUX'',
     ''MCD'', ''CMG'', ''QSR'', ''WEN'', ''DPZ'', ''PZZA'', ''YUM'', ''WING'', ''SHAK'',
     ''JACK'', ''DNUT'', ''DIN'', ''CAKE'', ''EAT'', ''TXRH'', ''BLMN'', ''DRI'', ''CBRL'',
     ''PLAY'', ''SIX'', ''FUN'', ''SEAS'', ''CNK'', ''IMAX'', ''PEP'', ''KO'', ''MNST'',
     ''CELH'', ''KDP'', ''TAP'', ''SAM'', ''STZ'', ''DEO'', ''BF'', ''PM'', ''MO'',
     ''BTI'', ''TPB'', ''TLRY'', ''CGC'', ''ACB'', ''CRON'', ''SNDL'', ''VFF'', ''RIVN'',
     ''LCID'', ''NIO'', ''XPEV'', ''LI'', ''FSR'', ''NKLA'', ''RIDE'', ''WKHS'', ''GOEV'',
     ''FFIE'', ''MULN'', ''VFS'', ''PTRA'', ''ARVL'', ''LEV'', ''HYLN'', ''EVGO'',
     ''CHPT'', ''BLNK'', ''VLTA'', ''DCFC'', ''QS'', ''MVST'', ''SLDP'', ''FREY'',
     ''FREYR'', ''ENVX'', ''AMPX'', ''F'', ''GM'', ''TM'', ''HMC'', ''RACE'', ''STLA'',
     ''VWAGY'', ''BMWYY'', ''MBGAF'', ''POAHY'', ''BA'', ''LMT'', ''RTX'', ''NOC'', ''GD'',
     ''HII'', ''LHX'', ''TDG'', ''TXT'', ''HWM'', ''CAT'', ''DE'', ''PCAR'', ''CMI'',
     ''AGCO'', ''CNHI'', ''TEX'', ''ASTE'', ''OSK'', ''WNC'', ''GE'', ''HON'', ''MMM'',
     ''EMR'', ''ROK'', ''AME'', ''PH'', ''ITW'', ''NDSN'', ''MIDD'', ''URI'', ''HEES'',
     ''WSC'', ''ACM'', ''PWR'', ''EME'', ''FIX'', ''MTZ'', ''AROC'', ''TPC'', ''FDX'',
     ''UPS'', ''DAL'', ''UAL'', ''AAL'', ''LUV'', ''ALK'', ''JBLU'', ''SAVE'', ''HA'',
     ''JBHT'', ''KNX'', ''ODFL'', ''SAIA'', ''XPO'', ''GXO'', ''CHRW'', ''EXPD'', ''LSTR'',
     ''HUBG'', ''CVX'', ''COP'', ''EOG'', ''SLB'', ''MPC'', ''VLO'', ''PSX'', ''OXY'',
     ''PXD'', ''DVN'', ''FANG'', ''HAL'', ''BKR'', ''NOV'', ''HP'', ''OII'', ''RIG'',
     ''VAL'', ''DO'', ''AR'', ''RRC'', ''EQT'', ''SWN'', ''CNX'', ''CTRA'', ''MTDR'',
     ''CHRD'', ''PR'', ''GPOR'', ''NEE'', ''DUK'', ''SO'', ''D'', ''AEP'', ''XEL'',
     ''SRE'', ''ED'', ''EIX'', ''WEC'', ''ES'', ''AWK'', ''ATO'', ''NI'', ''CMS'', ''DTE'',
     ''FE'', ''PPL'', ''EVRG'', ''AES'', ''PLUG'', ''FCEL'', ''BLDP'', ''BE'', ''BLOOM'',
     ''ENPH'', ''SEDG'', ''RUN'', ''NOVA'', ''ARRY'', ''SHLS'', ''MAXN'', ''SPWR'',
     ''FSLR'', ''CSIQ'', ''JKS'', ''DQ'', ''FLNC'', ''STEM'', ''GEVO'', ''AMT'', ''PLD'',
     ''EQIX'', ''CCI'', ''PSA'', ''DLR'', ''SBAC'', ''O'', ''WELL'', ''AVB'', ''EQR'',
     ''VTR'', ''ARE'', ''MAA'', ''UDR'', ''ESS'', ''CPT'', ''SUI'', ''ELS'', ''INVH'',
     ''MPW'', ''PEAK'', ''DOC'', ''HR'', ''OHI'', ''CTRE'', ''SBRA'', ''LTC'', ''NHI'',
     ''GMRE'', ''LIN'', ''APD'', ''SHW'', ''DD'', ''DOW'', ''PPG'', ''ECL'', ''EMN'',
     ''ALB'', ''FMC'', ''NEM'', ''FCX'', ''NUE'', ''STLD'', ''CLF'', ''X'', ''AA'',
     ''SCCO'', ''TECK'', ''RIO'', ''BHP'', ''VALE'', ''MT'', ''BTU'', ''ARCH'', ''CNR'',
     ''HCC'', ''AMR'', ''CEIX'', ''ARLP'', ''MP'', ''LAC'', ''LTHM'', ''SQM'', ''LTBR'',
     ''UUUU'', ''DNN'', ''NXE'', ''URG'', ''CCJ'', ''RKLB'', ''LUNR'', ''RDW'', ''ASTS'',
     ''BKSY'', ''SPIR'', ''PL'', ''VORB'', ''ASTR'', ''MNTS'', ''MSTR'', ''MARA'',
     ''RIOT'', ''CLSK'', ''IREN'', ''HUT'', ''BITF'', ''BTBT'', ''CIFR'', ''EBON'',
     ''CORZ'', ''ARBK'', ''GREE'', ''BTDR'', ''WULF'', ''BTCM'', ''ETOR'', ''SATO'',
     ''DGHI'', ''IBIT'', ''GBTC'', ''FBTC'', ''ARKB'', ''BITB'', ''HODL'', ''BRRR'',
     ''BTCO'', ''DEFI'', ''EZBC'', ''ETHE'', ''ETHV'', ''CETH'', ''FETH'', ''ETHA'',
     ''MSTU'', ''MSTX'', ''MSTZ'', ''CONL'', ''GME'', ''AMC'', ''BB'', ''NOK'', ''BBBY'',
     ''KOSS'', ''NAKD'', ''WISH'', ''DWAC'', ''PHUN'', ''MARK'', ''SPCE'', ''SKLZ'',
     ''PLBY'', ''BYND'', ''CRSR'', ''NNDM'', ''SPRT'', ''ATER'', ''IRNT'', ''SDC'',
     ''PROG'', ''BBIG'', ''TYDE'', ''CEI'', ''OCGN'', ''AGRX'', ''BIOR'', ''SAVA'',
     ''SRNE'', ''EDSA'', ''DJT'', ''SMFL'', ''RDDT'', ''SPY'', ''QQQ'', ''IWM'', ''DIA'',
     ''VOO'', ''VTI'', ''VTV'', ''VUG'', ''VGT'', ''VHT'', ''VNQ'', ''VWO'', ''VEA'',
     ''VIG'', ''SCHD'', ''JEPI'', ''JEPQ'', ''QYLD'', ''XYLD'', ''RYLD'', ''XLF'', ''XLE'',
     ''XLK'', ''XLV'', ''XLI'', ''XLY'', ''XLP'', ''XLU'', ''XLB'', ''XLRE'', ''IYR'',
     ''ITB'', ''XHB'', ''KRE'', ''KBE'', ''OIH'', ''XOP'', ''AMLP'', ''MLPA'', ''TAN'',
     ''ICLN'', ''PBW'', ''QCLN'', ''LIT'', ''BATT'', ''DRIV'', ''IDRV'', ''CARZ'',
     ''KOMP'', ''ARKK'', ''ARKW'', ''ARKF'', ''ARKG'', ''ARKQ'', ''ARKX'', ''PRNT'',
     ''IZRL'', ''MOON'', ''ROBO'', ''BOTZ'', ''HACK'', ''BUG'', ''CIBR'', ''WCLD'',
     ''SKYY'', ''CLOU'', ''IGV'', ''SOXX'', ''SMH'', ''PSI'', ''SOXL'', ''SOXS'', ''TQQQ'',
     ''SQQQ'', ''QLD'', ''QID'', ''SPXL'', ''SPXS'', ''SPXU'', ''UPRO'', ''TNA'', ''TZA'',
     ''LABU'', ''LABD'', ''FAS'', ''FAZ'', ''ERX'', ''ERY'', ''NUGT'', ''DUST'', ''JNUG'',
     ''JDST'', ''GUSH'', ''DRIP'', ''BOIL'', ''KOLD'', ''UCO'', ''SCO'', ''USO'', ''UNG'',
     ''UVXY'', ''SVXY'', ''VXX'', ''VIXY'', ''SVOL'', ''VIXM'', ''SPX'', ''NDX'', ''VIX'',
     ''RUT'', ''DJI'', ''CPI'', ''PPI'', ''PCE'', ''GDP'', ''NFP'', ''JOBS'', ''FOMC'',
     ''FED'', ''OPEC'', ''BTC'', ''ETH'', ''SOL'', ''XRP'', ''DOGE'', ''ADA'', ''AVAX'',
     ''DOT'', ''LINK'', ''MATIC'', ''SHIB'', ''BCH'', ''UNI'', ''AAVE'', ''MKR'', ''ATOM'',
     ''FIL'', ''ICP'', ''APT''}"

definition IGNORE_WORDS :: "string set" where
  "IGNORE_WORDS =
    {''ALL'', ''ARE'', ''BIG'', ''BUY'', ''CAN'', ''CEO'', ''DAY'', ''DID'', ''EOD'',
     ''FOR'', ''GET'', ''GOT'', ''HAS'', ''HER'', ''HIM'', ''HIS'', ''HOW'', ''ITS'',
     ''LET'', ''LOT'', ''LOW'', ''MAN'', ''MAY'', ''NEW'', ''NOT'', ''NOW'', ''OLD'',
     ''ONE'', ''OUR'', ''OUT'', ''OWN'', ''RUN'', ''SAW'', ''SAY'', ''SEE'', ''SET'',
     ''SHE'', ''THE'', ''TOO'', ''TRY'', ''TWO'', ''USE'', ''WAS'', ''WAY'', ''WHO'',
     ''WHY'', ''WIN'', ''WON'', ''YES'', ''YET'', ''YOU'', ''JUST'', ''KNOW'', ''LIKE'',
     ''LOOK'', ''MAKE'', ''MORE'', ''MOST'', ''MUCH'', ''MUST'', ''NEXT'', ''ONLY'',
     ''OVER'', ''SAME'', ''SELF'', ''SOME'', ''SUCH'', ''TELL'', ''THAN'', ''THAT'',
     ''THEM'', ''THEN'', ''THIS'', ''TIME'', ''VERY'', ''WANT'', ''WELL'', ''WHAT'',
     ''WHEN'', ''WILL'', ''WITH'', ''WORK'', ''YEAR'', ''BEEN'', ''COME'', ''DOES'',
     ''DONE'', ''EACH'', ''EVEN'', ''FIND'', ''GIVE'', ''GOOD'', ''HAVE'', ''HERE'',
     ''INTO'', ''KEEP'', ''LAST'', ''LONG'', ''TAKE'', ''THEIR'', ''THINK'', ''THOSE'',
     ''UNDER'', ''COULD'', ''WOULD'', ''ABOUT'', ''AFTER'', ''BEING'', ''EVERY'',
     ''FIRST'', ''FOUND'', ''GREAT'', ''NEVER'', ''OTHER'', ''PLACE'', ''RIGHT'',
     ''STILL'', ''WHERE'', ''WHICH'', ''WHILE'', ''WORLD'', ''THESE'', ''THING'',
     ''THROUGH'', ''LOL'', ''LMAO'', ''LMFAO'', ''OMG'', ''WTF'', ''IMO'', ''IMHO'',
     ''BTW'', ''FYI'', ''TBH'', ''IDK'', ''SMH'', ''NGL'', ''BRO'', ''SIS'', ''FAM'',
     ''ASAP'', ''TBD'', ''RN'', ''FR'', ''GG'', ''GL'', ''HF'', ''AFK'', ''BRB'', ''IRL'',
     ''GOAT'', ''FWIW'', ''TLDR'', ''TL'', ''ATH'', ''ATL'', ''AH'', ''PM'', ''IV'',
     ''OI'', ''RSI'', ''EMA'', ''SMA'', ''MACD'', ''VWAP'', ''OTM'', ''ITM'', ''ATM'',
     ''DTE'', ''VOL'', ''AVG'', ''MAX'', ''MIN'', ''BID'', ''ASK'', ''HIGH'', ''OPEN'',
     ''YOLO'', ''FOMO'', ''HODL'', ''MOON'', ''DIP'', ''RIP'', ''CALLS'', ''PUTS'',
     ''CALL'', ''PUT'', ''SHORT'', ''SELL'', ''HOLD'', ''USA'', ''NYC'', ''LA'', ''UK'',
     ''EU'', ''US'', ''AI'', ''CFO'', ''COO'', ''CTO'', ''IPO'', ''SEC'', ''IRS'', ''FBI'',
     ''CIA'', ''LOVE'', ''LIFE'', ''CARE'', ''HELP'', ''HOME'', ''HOPE'', ''KIND'',
     ''MIND'', ''REAL'', ''TRUE'', ''BABY'', ''BEST'', ''FAST'', ''FREE'', ''FULL'',
     ''GLAD'', ''GOES'', ''GONE'', ''HARD'', ''HUGE'', ''IDEA'', ''JOBS'', ''KIDS'',
     ''LATE'', ''LESS'', ''LIVE'', ''LOST'', ''LUCK'', ''MAIN'', ''NICE'', ''PAID'',
     ''PLAY'', ''POOR'', ''RISK'', ''SAFE'', ''SICK'', ''SURE'', ''TALK'', ''WAIT'',
     ''WALK'', ''WILD'', ''WISE'', ''GUYS'', ''NUTS'', ''KINDA'', ''ELON''}"

definition AMBIGUOUS_TICKERS :: "string set" where
  "AMBIGUOUS_TICKERS =
    {''ALL'', ''ARE'', ''BIG'', ''CAN'', ''CAR'', ''DAY'', ''FUN'', ''FOR'', ''GAS'',
     ''GOT'', ''HAS'', ''HIT'', ''HOT'', ''KEY'', ''LOW'', ''MAN'', ''MEN'', ''NET'',
     ''NOW'', ''OLD'', ''ONE'', ''OUT'', ''OWN'', ''PAY'', ''RUN'', ''SEE'', ''SIX'',
     ''TEN'', ''THE'', ''TOP'', ''TRY'', ''TWO'', ''WAY'', ''WIN'', ''WON'', ''YOU'',
     ''ALLY'', ''APPS'', ''BALL'', ''BAND'', ''BILL'', ''BLUE'', ''BOOM'', ''CARS'',
     ''CASH'', ''COST'', ''DECK'', ''DISH'', ''DOOR'', ''EDIT'', ''EYES'', ''FACT'',
     ''FAST'', ''FIVE'', ''FLOW'', ''FOOD'', ''FORM'', ''FREE'', ''FUEL'', ''FULL'',
     ''FUND'', ''GAME'', ''GOOD'', ''GROW'', ''HAND'', ''HEAR'', ''HELP'', ''HERE'',
     ''HOME'', ''HOPE'', ''IDEA'', ''INFO'', ''JOBS'', ''KIDS'', ''KIND'', ''KNOW'',
     ''LAND'', ''LAST'', ''LAWS'', ''LEAD'', ''LIFE'', ''LINE'', ''LIVE'', ''LOOK'',
     ''LOVE'', ''LUCK'', ''MAKE'', ''MATH'', ''MEAN'', ''MEET'', ''MIND'', ''MOVE'',
     ''MUST'', ''NEAR'', ''NEED'', ''NEWS'', ''NEXT'', ''NICE'', ''OPEN'', ''PACK'',
     ''PAID'', ''PASS'', ''PATH'', ''PEAK'', ''PLAY'', ''PLUS'', ''POST'', ''PUSH'',
     ''RACE'', ''RARE'', ''RATE'', ''READ'', ''REAL'', ''REST'', ''RIDE'', ''RING'',
     ''RISE'', ''ROAD'', ''ROCK'', ''ROLL'', ''ROOF'', ''ROOM'', ''SAFE'', ''SAIL'',
     ''SALE'', ''SAVE'', ''SEED'', ''SELF'', ''SHIP'', ''SHOP'', ''SHOW'', ''SICK'',
     ''SIDE'', ''SIGN'', ''SITE'', ''SIZE'', ''SNAP'', ''SOLO'', ''SONG'', ''SOON'',
     ''SOUL'', ''SPOT'', ''STAR'', ''STAY'', ''STEP'', ''STOP'', ''TALK'', ''TALL'',
     ''TEAM'', ''TECH'', ''TELL'', ''TEST'', ''TEXT'', ''TICK'', ''TIES'', ''TIRE'',
     ''TOWN'', ''TREE'', ''TRIP'', ''TRUE'', ''TURN'', ''UNIT'', ''VERY'', ''VIEW'',
     ''VOID'', ''VOTE'', ''WAIT'', ''WALK'', ''WALL'', ''WARM'', ''WASH'', ''WAVE'',
     ''WAYS'', ''WEAR'', ''WEEK'', ''WELL'', ''WEST'', ''WIDE'', ''WIFE'', ''WILD'',
     ''WING'', ''WIRE'', ''WISE'', ''WISH'', ''WOOD'', ''WORD'', ''WORK'', ''WRAP'',
     ''YARD'', ''YEAR'', ''ZERO'', ''ZONE'', ''BROS'', ''MARK''}"

definition DOLLAR_ONLY_TICKERS :: "string set" where
  "DOLLAR_ONLY_TICKERS =
    {''DO'', ''GO'', ''ON'', ''SO'', ''IT'', ''AT'', ''BE'', ''BY'', ''OR'', ''AN'',
     ''AS'', ''IF'', ''NO'', ''UP'', ''WE'', ''HE'', ''ME'', ''TV'', ''A'', ''I'', ''U'',
     ''AI'', ''KO'', ''CAT'', ''DOG''}"

definition STOCK_CONTEXT_WORDS :: "string set" where
  "STOCK_CONTEXT_WORDS =
    {''buy'', ''buying'', ''bought'', ''sell'', ''selling'', ''sold'', ''calls'', ''call'',
     ''puts'', ''put'', ''shares'', ''stock'', ''stocks'', ''price'', ''trading'',
     ''trade'', ''long'', ''short'', ''bullish'', ''bearish'', ''options'', ''option'',
     ''squeeze'', ''moon'', ''pump'', ''dump'', ''dip'', ''rip'', ''breakout'',
     ''earnings'', ''er'', ''hold'', ''holding'', ''position'', ''entry'', ''exit'',
     ''target'', ''pt'', ''strike'', ''exp'', ''expiry'', ''weekly'', ''weeklies'',
     ''leaps'', ''spread'', ''portfolio'', ''bag'', ''bags'', ''bagholder'', ''avg'',
     ''average'', ''profit'', ''loss'', ''gain'', ''gains'', ''tendies'', ''yolo'',
     ''fomo'', ''chart'', ''ta'', ''support'', ''resistance'', ''volume'', ''float'',
     ''si'', ''iv'', ''oi'', ''gamma'', ''delta'', ''theta'', ''vega'', ''greeks'',
     ''ripping'', ''drilling'', ''tanking'', ''mooning'', ''printing'', ''sending'',
     ''weak'', ''strong'', ''green'', ''red'', ''bounce'', ''fade'', ''reversal'',
     ''oversold'', ''overbought'', ''undervalued'', ''overvalued'', ''cheap'',
     ''expensive'', ''dividend'', ''div'', ''yield'', ''pe'', ''eps'', ''revenue'',
     ''guidance'', ''upgrade'', ''downgrade'', ''analyst'', ''rating'', ''sector'',
     ''etf'', ''rally'', ''crash'', ''correction'', ''pullback'', ''consolidation'',
     ''channel'', ''ticker'', ''symbol'', ''stonk'', ''stonks'', ''invest'', ''investing'',
     ''investor''}"

definition BULLISH_WORDS :: "string set" where
  "BULLISH_WORDS =
    {''buy'', ''buying'', ''bought'', ''long'', ''calls'', ''call'', ''bullish'', ''moon'',
     ''rocket'', ''pump'', ''breakout'', ''rip'', ''ripping'', ''squeeze'', ''green'',
     ''up'', ''higher'', ''strong'', ''support'', ''bounce'', ''reversal'', ''cheap'',
     ''dip'', ''accumulate'', ''load'', ''loading'', ''ath'', ''highs'', ''beat'',
     ''crush'', ''smash'', ''blast'', ''fly'', ''flying'', ''soar'', ''send'', ''print'',
     ''tendies'', ''gains'', ''lfg'', ''letsgoo'', ''bullrun'', ''parabolic''}"

definition BEARISH_WORDS :: "string set" where
  "BEARISH_WORDS =
    {''sell'', ''selling'', ''sold'', ''short'', ''puts'', ''put'', ''bearish'', ''dump'',
     ''dumping'', ''crash'', ''crashing'', ''tank'', ''tanking'', ''drill'', ''drilling'',
     ''red'', ''down'', ''lower'', ''weak'', ''resistance'', ''rejection'', ''fade'',
     ''overvalued'', ''expensive'', ''bubble'', ''top'', ''topped'', ''rug'', ''rugged'',
     ''rekt'', ''trapped'', ''baghold'', ''bagholder'', ''dead'', ''cliff'', ''sink'',
     ''capitulate'', ''capitulation'', ''bloodbath'', ''slaughter''}"

definition SPAM_LINK_RE :: "atom list list" where
  "SPAM_LINK_RE =
    [ [Lit ''discord.gg/''], [Lit ''t.me/''], [Lit ''bit.ly/''], [Lit ''tinyurl.com/''],
     [Lit ''telegram.''], [Lit ''whatsapp.''], [Lit ''signal.group/''],
     [Lit ''join'', DotStar, Lit ''group''], [Lit ''join'', DotStar, Lit ''channel''],
     [Lit ''join'', DotStar, Lit ''server''], [Lit ''click'', DotStar, Lit ''link''],
     [Lit ''check'', DotStar, Lit ''bio''], [Lit ''link'', DotStar, Lit ''bio''],
     [Lit ''dm'', DotStar, Lit ''me''], [Lit ''dm'', DotStar, Lit ''for''],
     [Lit ''message'', DotStar, Lit ''me'']]"

definition SPAM_PUMP_RE :: "atom list list" where
  "SPAM_PUMP_RE =
    [ [Lit ''guaranteed'', DotStar, Lit ''gains''], [Lit ''100x''], [Lit ''1000x''],
     [Lit ''10x'', DotStar, Lit ''guaranteed''], [Lit ''free'', DotStar, Lit ''money''],
     [Lit ''free'', DotStar, Lit ''crypto''], [Lit ''free'', DotStar, Lit ''bitcoin''],
     [Lit ''airdrop''], [Lit ''giveaway'', DotStar, Lit ''crypto''],
     [Lit ''send'', DotStar, Lit ''eth''], [Lit ''send'', DotStar, Lit ''btc''],
     [Lit ''double'', DotStar, Lit ''your''], [Lit ''triple'', DotStar, Lit ''your''],
     [Lit ''10x'', DotStar, Lit ''your''], [Lit ''insider'', DotStar, Lit ''info''],
     [Lit ''insider'', DotStar, Lit ''tip''],
     [Lit ''trust'', DotStar, Lit ''me'', DotStar, Lit ''bro''],
     [Lit ''financial'', DotStar, Lit ''freedom''], [Lit ''quit'', DotStar, Lit ''job''],
     [Lit ''passive'', DotStar, Lit ''income''], [Lit ''limited'', DotStar, Lit ''spots''],
     [Lit ''act'', DotStar, Lit ''now''], [Lit ''hurry'', DotStar, Lit ''up''],
     [Lit ''once'', DotStar, Lit ''lifetime''], [Lit ''cant'', DotStar, Lit ''miss''],
     [Lit ''can't'', DotStar, Lit ''miss''], [Lit ''get'', DotStar, Lit ''rich''],
     [Lit ''millionaire''], [Lit ''lambo''], [Lit ''pump'', DotStar, Lit ''coming''],
     [Lit ''moon'', DotStar, Lit ''guaranteed''], [Lit ''easy'', DotStar, Lit ''money''],
     [Lit ''secret'', DotStar, Lit ''strategy''],
     [Lit ''they'', DotStar, Lit ''dont'', DotStar, Lit ''want''],
     [Lit ''subscribe'', DotStar, Lit ''my''], [Lit ''follow'', DotStar, Lit ''my''],
     [Lit ''check'', DotStar, Lit ''my'', DotStar, Lit ''channel'']]"

definition SPAM_CRYPTO_RE :: "atom list list" where
  "SPAM_CRYPTO_RE =
    [ [Lit ''send'', DotStar, Digits, DotStar, Lit ''eth''],
     [Lit ''send'', DotStar, Digits, DotStar, Lit ''btc''],
     [Lit ''send'', DotStar, Digits, DotStar, Lit ''sol''],
     [Lit ''wallet'', DotStar, Lit ''address''],
     [Lit ''connect'', DotStar, Lit ''wallet''],
     [Lit ''validate'', DotStar, Lit ''wallet''], [Lit ''sync'', DotStar, Lit ''wallet''],
     [Lit ''claim'', DotStar, Lit ''reward''], [Lit ''claim'', DotStar, Lit ''token''],
     [Lit ''claim'', DotStar, Lit ''airdrop'']]"

subsection \<open>Tables of chat_viz_backend_v2.py\<close>

definition KNOWN_TICKERS_v2 :: "string set" where
  "KNOWN_TICKERS_v2 =
    {''AAPL'', ''MSFT'', ''GOOGL'', ''GOOG'', ''AMZN'', ''NVDA'', ''META'', ''TSLA'',
     ''BRK'', ''BRKB'', ''TSM'', ''AVGO'', ''LLY'', ''JPM'', ''UNH'', ''V'', ''MA'',
     ''XOM'', ''JNJ'', ''WMT'', ''AMD'', ''INTC'', ''MU'', ''QCOM'', ''TXN'', ''AMAT'',
     ''LRCX'', ''KLAC'', ''ADI'', ''MRVL'', ''NXPI'', ''MCHP'', ''ON'', ''SWKS'', ''QRVO'',
     ''MPWR'', ''SMCI'', ''ARM'', ''ASML'', ''SNPS'', ''CRM'', ''ORCL'', ''ADBE'', ''NOW'',
     ''INTU'', ''PANW'', ''CRWD'', ''SNOW'', ''DDOG'', ''ZS'', ''NET'', ''PLTR'', ''MDB'',
     ''ESTC'', ''TEAM'', ''OKTA'', ''ZM'', ''TWLO'', ''HUBS'', ''DOCU'', ''IONQ'',
     ''RGTI'', ''QBTS'', ''QUBT'', ''ARQQ'', ''SOUN'', ''BBAI'', ''AI'', ''UPST'',
     ''CXAI'', ''GME'', ''AMC'', ''BB'', ''NOK'', ''KOSS'', ''SNDL'', ''TLRY'', ''LCID'',
     ''RIVN'', ''DJT'', ''RDDT'', ''MSTR'', ''COIN'', ''MARA'', ''RIOT'', ''CLSK'',
     ''IREN'', ''HUT'', ''BITF'', ''IBIT'', ''GBTC'', ''FBTC'', ''ARKB'', ''ETHE'',
     ''BTC'', ''ETH'', ''SOL'', ''XRP'', ''DOGE'', ''ADA'', ''AVAX'', ''DOT'', ''LINK'',
     ''SHIB'', ''SPY'', ''QQQ'', ''IWM'', ''DIA'', ''VOO'', ''VTI'', ''ARKK'', ''SOXL'',
     ''TQQQ'', ''UVXY'', ''SPX'', ''NDX'', ''VIX'', ''RUT'', ''DJI''}"

definition IGNORE_WORDS_v2 :: "string set" where
  "IGNORE_WORDS_v2 =
    {''ALL'', ''ARE'', ''BIG'', ''BUY'', ''CAN'', ''CEO'', ''DAY'', ''DID'', ''EOD'',
     ''FOR'', ''GET'', ''GOT'', ''HAS'', ''HER'', ''HIM'', ''HIS'', ''HOW'', ''ITS'',
     ''LET'', ''LOT'', ''LOW'', ''MAN'', ''MAY'', ''NEW'', ''NOT'', ''NOW'', ''OLD'',
     ''ONE'', ''OUR'', ''OUT'', ''OWN'', ''RUN'', ''SAW'', ''SAY'', ''SEE'', ''SET'',
     ''SHE'', ''THE'', ''TOO'', ''TRY'', ''TWO'', ''USE'', ''WAS'', ''WAY'', ''WHO'',
     ''WHY'', ''WIN'', ''WON'', ''YES'', ''YET'', ''YOU'', ''JUST'', ''KNOW'', ''LIKE'',
     ''LOOK'', ''MAKE'', ''MORE'', ''MOST'', ''MUCH'', ''LOL'', ''LMAO'', ''LMFAO'',
     ''OMG'', ''WTF'', ''IMO'', ''IMHO'', ''BTW'', ''FYI'', ''TBH'', ''IDK'', ''SMH'',
     ''NGL'', ''BRO'', ''SIS'', ''FAM'', ''ASAP'', ''GOAT'', ''ELON''}"

definition AMBIGUOUS_TICKERS_v2 :: "string set" where
  "AMBIGUOUS_TICKERS_v2 =
    {''ALLY'', ''APPS'', ''BALL'', ''BAND'', ''BILL'', ''BLUE'', ''BOOM'', ''BROS'',
     ''CARS'', ''CASH'', ''COST'', ''DECK'', ''DISH'', ''DOOR'', ''EYES'', ''FAST'',
     ''FIVE'', ''FLOW'', ''FOOD'', ''FREE'', ''FUEL'', ''FULL'', ''FUND'', ''GAME'',
     ''GOOD'', ''GROW'', ''HAND'', ''HEAR'', ''HELP'', ''HOME'', ''HOPE'', ''IDEA'',
     ''INFO'', ''JOBS'', ''KIND'', ''KNOW'', ''LAND'', ''LAST'', ''LEAD'', ''LIFE'',
     ''LINE'', ''LIVE'', ''LOOK'', ''LOVE'', ''LUCK'', ''MAKE'', ''MARK'', ''MIND'',
     ''MOVE'', ''NEED'', ''NEWS'', ''NEXT'', ''NICE'', ''OPEN'', ''PACK'', ''PAID'',
     ''PASS'', ''PATH'', ''PEAK'', ''PLAY'', ''PLUS'', ''POST'', ''PUSH'', ''RACE'',
     ''RARE'', ''RATE'', ''READ'', ''REAL'', ''REST'', ''RIDE'', ''RING'', ''RISE'',
     ''ROAD'', ''ROCK'', ''ROLL'', ''ROOF'', ''ROOM'', ''SAFE'', ''SAIL'', ''SALE'',
     ''SAVE'', ''SEED'', ''SELF'', ''SHIP'', ''SHOP'', ''SHOW'', ''SICK'', ''SIDE'',
     ''SIGN'', ''SITE'', ''SIZE'', ''SNAP'', ''SOLO'', ''SONG'', ''SOON'', ''SOUL'',
     ''SPOT'', ''STAR'', ''STAY'', ''STEP'', ''STOP'', ''TALK'', ''TEAM'', ''TECH'',
     ''TELL'', ''TEST'', ''TEXT'', ''TRIP'', ''TRUE'', ''TURN'', ''VIEW'', ''VOTE'',
     ''WAIT'', ''WALK'', ''WALL'', ''WAVE'', ''WAYS'', ''WELL'', ''WILD'', ''WING'',
     ''WIRE'', ''WISE'', ''WISH'', ''WOOD'', ''WORD'', ''WORK'', ''YEAR'', ''ZERO'',
     ''ZONE''}"

definition DOLLAR_ONLY_TICKERS_v2 :: "string set" where
  "DOLLAR_ONLY_TICKERS_v2 =
    {''DO'', ''GO'', ''ON'', ''SO'', ''IT'', ''AT'', ''BE'', ''BY'', ''OR'', ''AN'',
     ''AS'', ''IF'', ''NO'', ''UP'', ''WE'', ''HE'', ''ME'', ''TV'', ''A'', ''I'', ''U'',
     ''AI'', ''KO'', ''CAT''}"

definition STOCK_CONTEXT_WORDS_v2 :: "string set" where
  "STOCK_CONTEXT_WORDS_v2 =
    {''buy'', ''buying'', ''bought'', ''sell'', ''selling'', ''sold'', ''calls'', ''call'',
     ''puts'', ''put'', ''shares'', ''stock'', ''stocks'', ''price'', ''trading'',
     ''trade'', ''long'', ''short'', ''bullish'', ''bearish'', ''options'', ''option'',
     ''squeeze'', ''moon'', ''pump'', ''dump'', ''dip'', ''rip'', ''breakout'',
     ''earnings'', ''hold'', ''holding'', ''position'', ''entry'', ''exit'', ''target'',
     ''strike'', ''portfolio''}"

definition BULLISH_WORDS_v2 :: "string set" where
  "BULLISH_WORDS_v2 =
    {''buy'', ''buying'', ''bought'', ''long'', ''calls'', ''call'', ''bullish'', ''moon'',
     ''rocket'', ''pump'', ''breakout'', ''rip'', ''ripping'', ''squeeze'', ''green'',
     ''up'', ''higher'', ''strong'', ''support'', ''bounce'', ''reversal'', ''cheap'',
     ''dip'', ''accumulate'', ''load'', ''loading'', ''ath'', ''highs'', ''beat'',
     ''crush'', ''smash'', ''blast'', ''fly'', ''flying'', ''soar'', ''send'', ''print'',
     ''tendies'', ''gains'', ''lfg'', ''letsgoo'', ''parabolic''}"

definition BEARISH_WORDS_v2 :: "string set" where
  "BEARISH_WORDS_v2 =
    {''sell'', ''selling'', ''sold'', ''short'', ''puts'', ''put'', ''bearish'', ''dump'',
     ''dumping'', ''crash'', ''crashing'', ''tank'', ''tanking'', ''drill'', ''drilling'',
     ''red'', ''down'', ''lower'', ''weak'', ''resistance'', ''rejection'', ''fade'',
     ''overvalued'', ''expensive'', ''bubble'', ''top'', ''topped'', ''rug'', ''rugged'',
     ''rekt'', ''trapped'', ''baghold'', ''bagholder'', ''dead'', ''cliff'', ''sink''}"

definition SPAM_LINK_RE_v2 :: "atom list list" where
  "SPAM_LINK_RE_v2 =
    [ [Lit ''discord.gg/''], [Lit ''t.me/''], [Lit ''bit.ly/''], [Lit ''tinyurl.com/''],
     [Lit ''telegram.''], [Lit ''join'', DotStar, Lit ''group''],
     [Lit ''join'', DotStar, Lit ''channel''], [Lit ''dm'', DotStar, Lit ''me'']]"

definition SPAM_PUMP_RE_v2 :: "atom list list" where
  "SPAM_PUMP_RE_v2 =
    [ [Lit ''guaranteed'', DotStar, Lit ''gains''], [Lit ''100x''], [Lit ''1000x''],
     [Lit ''free'', DotStar, Lit ''money''], [Lit ''free'', DotStar, Lit ''crypto''],
     [Lit ''airdrop''], [Lit ''giveaway'', DotStar, Lit ''crypto''],
     [Lit ''double'', DotStar, Lit ''your''], [Lit ''insider'', DotStar, Lit ''info''],
     [Lit ''financial'', DotStar, Lit ''freedom''],
     [Lit ''limited'', DotStar, Lit ''spots''], [Lit ''get'', DotStar, Lit ''rich''],
     [Lit ''pump'', DotStar, Lit ''coming''], [Lit ''moon'', DotStar, Lit ''guaranteed''],
     [Lit ''subscribe'', DotStar, Lit ''my''], [Lit ''follow'', DotStar, Lit ''my'']]"

definition SPAM_CRYPTO_RE_v2 :: "atom list list" where
  "SPAM_CRYPTO_RE_v2 =
    [ [Lit ''send'', DotStar, Digits, DotStar, Lit ''eth''],
     [Lit ''send'', DotStar, Digits, DotStar, Lit ''btc''],
     [Lit ''wallet'', DotStar, Lit ''address''],
     [Lit ''connect'', DotStar, Lit ''wallet''],
     [Lit ''validate'', DotStar, Lit ''wallet''], [Lit ''claim'', DotStar, Lit ''reward'']]"

section \<open>Spam detection\<close>

type_synonym history = "ustr \<rightharpoonup> (rat \<times> int) list"

definition HISTORY_WINDOW :: rat where
  "HISTORY_WINDOW = 60"

definition MAX_HISTORY_PER_USER :: nat where
  "MAX_HISTORY_PER_USER = 20"

text \<open>The slice \<open>xs[-n:]\<close> for \<open>n > 0\<close>: the last \<open>n\<close> elements, all of them when there are fewer.\<close>

definition last_n :: "nat \<Rightarrow> 'a list \<Rightarrow> 'a list" where
  "last_n n xs = drop (length xs - n) xs"

definition clean_history :: "ustr \<Rightarrow> rat \<Rightarrow> history \<Rightarrow> history" where
  "clean_history author current_time user_history =
     (case user_history author of
        None \<Rightarrow> user_history
      | Some entries \<Rightarrow>
          user_history(author \<mapsto>
            last_n MAX_HISTORY_PER_USER
              (filter (\<lambda>(ts, h). current_time - ts < HISTORY_WINDOW) entries)))"

text \<open>One rule: \<open>if cond: reasons.append(r); confidence = max(confidence, k)\<close>.\<close>

definition fire :: "bool \<Rightarrow> reason \<Rightarrow> rat \<Rightarrow> reason list \<times> rat \<Rightarrow> reason list \<times> rat" where
  "fire cond r k st = (if cond then (fst st @ [r], max (snd st) k) else st)"

definition caps_rule :: "env \<Rightarrow> ustr \<Rightarrow> bool" where
  "caps_rule e text =
     (let alpha_chars = filter (isalpha e) text in
      length alpha_chars \<ge> 10 \<and>
      (of_nat (length (filter (isupper e) alpha_chars)) / of_nat (length alpha_chars) :: rat) > 7 / 10)"

text \<open>\<open>re.search(r'(.)\1{4,}', text)\<close>: a character other than newline, five times in a row.\<close>

fun repeated_chars :: "ustr \<Rightarrow> bool" where
  "repeated_chars [] = False"
| "repeated_chars (c # cs) =
     ((c \<noteq> 10 \<and> take 4 cs = [c, c, c, c]) \<or> repeated_chars cs)"

text \<open>Python's \<open>round(x, 2)\<close>, ties to even, on exact values.\<close>

definition round2 :: "rat \<Rightarrow> rat" where
  "round2 x =
     (let y = x * 100; f = \<lfloor>y\<rfloor>; d = y - of_int f;
          n = (if d < 1 / 2 then f else if d > 1 / 2 then f + 1 else if even f then f else f + 1)
      in of_int n / 100)"

text \<open>
  \<open>detect_spam\<close>, with what differs between the two files as parameters: the rapid-fire count
  and confidence and the three patterns.  The current time is \<open>datetime.now().timestamp()\<close>;
  the history is returned updated.
\<close>

definition detect_spam_core ::
  "nat \<Rightarrow> rat \<Rightarrow> atom list list \<Rightarrow> atom list list \<Rightarrow> atom list list \<Rightarrow>
   env \<Rightarrow> rat \<Rightarrow> ustr \<Rightarrow> ustr \<Rightarrow> history \<Rightarrow> verdict \<times> history" where
  "detect_spam_core rapid_count rapid_conf link_re pump_re crypto_re e current_time text author hist =
     (let user_history = clean_history author current_time hist;
          text_lower = lower e text;
          text_hash = py_hash e (strip text_lower);
          known = (user_history author \<noteq> None);
          entries = (case user_history author of None \<Rightarrow> [] | Some es \<Rightarrow> es);
          recent_hashes = map snd entries;
          recent_timestamps = map fst entries;
          recent_10s = filter (\<lambda>ts. current_time - ts < 10) recent_timestamps;
          emoji_count = length (filter (EMOJI_DATA e) text);
          st = ([], 0);
          st = fire (known \<and> text_hash \<in> set recent_hashes) duplicate (9 / 10) st;
          st = fire (known \<and> length recent_10s \<ge> rapid_count) rapid_fire rapid_conf st;
          st = fire (re_search e link_re text) promo_link (85 / 100) st;
          st = fire (re_search e pump_re text) pump_promo (8 / 10) st;
          st = fire (re_search e crypto_re text) crypto_scam (95 / 100) st;
          st = fire (caps_rule e text) excessive_caps (5 / 10) st;
          st = fire (repeated_chars text) repetitive_chars (4 / 10) st;
          st = fire (emoji_count > 10) excessive_emojis (5 / 10) st;
          user_history = user_history(author \<mapsto> entries @ [(current_time, text_hash)]);
          rs = fst st;
          c = snd st;
          c = (if length rs \<ge> 2 \<and> c < 7 / 10 then min (75 / 100) (c + 2 / 10) else c)
      in (\<lparr>is_spam = (c \<ge> 7 / 10),
           reason = (case rs of [] \<Rightarrow> None | r # _ \<Rightarrow> Some r),
           reasons = rs,
           confidence = round2 c\<rparr>, user_history))"

text \<open>\<open>chat_viz_backend.py\<close>: three earlier messages in ten seconds, confidence 0.8.\<close>

definition detect_spam :: "env \<Rightarrow> rat \<Rightarrow> ustr \<Rightarrow> ustr \<Rightarrow> history \<Rightarrow> verdict \<times> history" where
  "detect_spam = detect_spam_core 3 (8 / 10) SPAM_LINK_RE SPAM_PUMP_RE SPAM_CRYPTO_RE"

text \<open>\<open>chat_viz_backend_v2.py\<close>: five earlier messages in ten seconds, confidence 0.6.\<close>

definition detect_spam_v2 :: "env \<Rightarrow> rat \<Rightarrow> ustr \<Rightarrow> ustr \<Rightarrow> history \<Rightarrow> verdict \<times> history" where
  "detect_spam_v2 =
     detect_spam_core 5 (6 / 10) SPAM_LINK_RE_v2 SPAM_PUMP_RE_v2 SPAM_CRYPTO_RE_v2"

text \<open>The confidence each rule contributes, as written at its \<open>max\<close>.\<close>

fun rule_confidence :: "rat \<Rightarrow> reason \<Rightarrow> rat" where
  "rule_confidence rapid_conf duplicate = 9 / 10"
| "rule_confidence rapid_conf rapid_fire = rapid_conf"
| "rule_confidence rapid_conf promo_link = 85 / 100"
| "rule_confidence rapid_conf pump_promo = 8 / 10"
| "rule_confidence rapid_conf crypto_scam = 95 / 100"
| "rule_confidence rapid_conf excessive_caps = 5 / 10"
| "rule_confidence rapid_conf repetitive_chars = 4 / 10"
| "rule_confidence rapid_conf excessive_emojis = 5 / 10"

section \<open>Ticker extraction\<close>

text \<open>
  \<open>re.search(r'\$([A-Z]{1,5})\b', text_upper)\<close>, group 1 of the leftmost match.  At a \<open>$\<close>
  the expression takes letters and then needs a word boundary; after fewer letters than the
  whole run the next character is a letter, so only the whole run can match: it must have one
  to five letters and be followed by the end of the text or by a character that is not a word
  character.
\<close>

fun dollar_match :: "env \<Rightarrow> ustr \<Rightarrow> ustr option" where
  "dollar_match e [] = None"
| "dollar_match e (c # cs) =
     (if c = 36 \<and> 1 \<le> length (takeWhile is_AZ cs) \<and> length (takeWhile is_AZ cs) \<le> 5
         \<and> (case dropWhile is_AZ cs of [] \<Rightarrow> True | d # _ \<Rightarrow> \<not> is_word e d)
      then Some (takeWhile is_AZ cs)
      else dollar_match e cs)"

text \<open>
  \<open>re.search(r'\b' + name + r'\b', text_upper)\<close> for a name made of letters: the name stands
  at a position whose left neighbour and right neighbour are not word characters.  The flag
  says whether the character before the current position is a word character.
\<close>

fun search_name :: "env \<Rightarrow> ustr \<Rightarrow> bool \<Rightarrow> ustr \<Rightarrow> bool" where
  "search_name e name prev_word [] = False"
| "search_name e name prev_word (c # cs) =
     ((\<not> prev_word \<and> prefix name (c # cs)
        \<and> (case drop (length name) (c # cs) of [] \<Rightarrow> True | d # _ \<Rightarrow> \<not> is_word e d))
      \<or> search_name e name (is_word e c) cs)"

text \<open>The loop over \<open>COMPANY_NAMES.items()\<close>: the first name found gives the ticker.\<close>

fun company_lookup :: "env \<Rightarrow> (string \<times> string) list \<Rightarrow> ustr \<Rightarrow> ustr option" where
  "company_lookup e [] text_upper = None"
| "company_lookup e ((name, ticker) # rest) text_upper =
     (if search_name e (U name) False text_upper then Some (U ticker)
      else company_lookup e rest text_upper)"

text \<open>
  \<open>re.findall(r'\b([A-Z]{2,5})\b', text_upper)\<close>: a match starts and ends at a word boundary,
  so the matches are the maximal runs of word characters that consist of two to five letters.
\<close>

definition findall_tickers :: "env \<Rightarrow> ustr \<Rightarrow> ustr list" where
  "findall_tickers e text_upper =
     filter (\<lambda>w. 2 \<le> length w \<and> length w \<le> 5 \<and> list_all is_AZ w) (findall_words e text_upper)"

definition has_stock_context_core :: "env \<Rightarrow> string set \<Rightarrow> ustr \<Rightarrow> bool" where
  "has_stock_context_core e CONTEXT txt =
     (\<exists>w \<in> set (findall_words e (lower e txt)). w \<in> U ` CONTEXT)"

text \<open>Rules 2 to 4 of \<open>extract_ticker\<close>: what runs when the \<open>$\<close> rule has not returned.\<close>

definition free_text_core ::
  "env \<Rightarrow> string set \<Rightarrow> string set \<Rightarrow> string set \<Rightarrow> string set \<Rightarrow> string set \<Rightarrow>
   ustr \<Rightarrow> ustr \<Rightarrow> ustr set \<Rightarrow> ustr option" where
  "free_text_core e IGNORE KNOWN AMBIGUOUS DOLLAR_ONLY CONTEXT text_upper txt discovered =
     (case company_lookup e COMPANY_NAMES text_upper of
        Some ticker \<Rightarrow> Some ticker
      | None \<Rightarrow>
          (let all_valid = U ` KNOWN \<union> discovered;
               ws = findall_tickers e text_upper
           in case find (\<lambda>w. \<not> (w \<in> U ` IGNORE \<or> w \<in> U ` DOLLAR_ONLY)
                               \<and> w \<in> all_valid \<and> w \<notin> U ` AMBIGUOUS) ws of
                Some w \<Rightarrow> Some w
              | None \<Rightarrow>
                  if has_stock_context_core e CONTEXT txt
                  then find (\<lambda>w. \<not> (w \<in> U ` IGNORE \<or> w \<in> U ` DOLLAR_ONLY)
                                   \<and> w \<in> all_valid \<and> w \<in> U ` AMBIGUOUS) ws
                  else None))"

text \<open>
  \<open>extract_ticker\<close>: the result and the set of tickers discovered in the session, which the
  \<open>$\<close> rule extends (a global in the first file, an argument in the second).
\<close>

definition extract_ticker_core ::
  "env \<Rightarrow> string set \<Rightarrow> string set \<Rightarrow> string set \<Rightarrow> string set \<Rightarrow> string set \<Rightarrow>
   ustr \<Rightarrow> ustr set \<Rightarrow> ustr option \<times> ustr set" where
  "extract_ticker_core e IGNORE KNOWN AMBIGUOUS DOLLAR_ONLY CONTEXT txt discovered =
     (let text_upper = upper e txt in
      case dollar_match e text_upper of
        Some ticker \<Rightarrow>
          if ticker \<notin> U ` IGNORE then (Some ticker, insert ticker discovered)
          else (free_text_core e IGNORE KNOWN AMBIGUOUS DOLLAR_ONLY CONTEXT text_upper txt discovered,
                discovered)
      | None \<Rightarrow>
          (free_text_core e IGNORE KNOWN AMBIGUOUS DOLLAR_ONLY CONTEXT text_upper txt discovered,
           discovered))"

definition extract_ticker :: "env \<Rightarrow> ustr \<Rightarrow> ustr set \<Rightarrow> ustr option \<times> ustr set" where
  "extract_ticker e =
     extract_ticker_core e IGNORE_WORDS KNOWN_TICKERS AMBIGUOUS_TICKERS DOLLAR_ONLY_TICKERS
       STOCK_CONTEXT_WORDS"

definition extract_ticker_v2 :: "env \<Rightarrow> ustr \<Rightarrow> ustr set \<Rightarrow> ustr option \<times> ustr set" where
  "extract_ticker_v2 e =
     extract_ticker_core e IGNORE_WORDS_v2 KNOWN_TICKERS_v2 AMBIGUOUS_TICKERS_v2
       DOLLAR_ONLY_TICKERS_v2 STOCK_CONTEXT_WORDS_v2"

section \<open>Sentiment\<close>

text \<open>
  The glyph literals of \<open>analyze_sentiment\<close>, as the code points the source files hold (each
  literal is four code points long in both files).
\<close>

definition BULLISH_GLYPHS :: "ustr list" where
  "BULLISH_GLYPHS =
     [ [240, 376, 353, 8364], [240, 376, 8220, 710], [240, 376, 8217, 353],
      [240, 376, 376, 162], [240, 376, 8221, 165]]"

definition BEARISH_GLYPHS :: "ustr list" where
  "BEARISH_GLYPHS =
     [ [240, 376, 8220, 8240], [240, 376, 8217, 8221], [240, 376, 8221, 180],
      [240, 376, 169, 184], [240, 376, 8217, 8364]]"

definition analyze_sentiment_core :: "env \<Rightarrow> string set \<Rightarrow> string set \<Rightarrow> ustr \<Rightarrow> sentiment" where
  "analyze_sentiment_core e BULL BEAR txt =
     (let text_lower = lower e txt;
          ws = set (findall_words e text_lower);
          bullish_count = card (ws \<inter> U ` BULL);
          bearish_count = card (ws \<inter> U ` BEAR);
          bullish_count = (if \<exists>g \<in> set BULLISH_GLYPHS. contains txt g
                           then bullish_count + 2 else bullish_count);
          bearish_count = (if \<exists>g \<in> set BEARISH_GLYPHS. contains txt g
                           then bearish_count + 2 else bearish_count)
      in if bullish_count > bearish_count then bullish
         else if bearish_count > bullish_count then bearish
         else neutral)"

definition analyze_sentiment :: "env \<Rightarrow> ustr \<Rightarrow> sentiment" where
  "analyze_sentiment e = analyze_sentiment_core e BULLISH_WORDS BEARISH_WORDS"

definition analyze_sentiment_v2 :: "env \<Rightarrow> ustr \<Rightarrow> sentiment" where
  "analyze_sentiment_v2 e = analyze_sentiment_core e BULLISH_WORDS_v2 BEARISH_WORDS_v2"

text \<open>
  The specification's reading, for comparison: every glyph that is present adds 2 to the count
  of its side.
\<close>

definition sentiment_per_glyph :: "env \<Rightarrow> string set \<Rightarrow> string set \<Rightarrow> ustr \<Rightarrow> sentiment" where
  "sentiment_per_glyph e BULL BEAR txt =
     (let ws = set (findall_words e (lower e txt));
          bullish_count = card (ws \<inter> U ` BULL) + 2 * length (filter (contains txt) BULLISH_GLYPHS);
          bearish_count = card (ws \<inter> U ` BEAR) + 2 * length (filter (contains txt) BEARISH_GLYPHS)
      in if bullish_count > bearish_count then bullish
         else if bearish_count > bullish_count then bearish
         else neutral)"

section \<open>Processing one message\<close>

text \<open>Which classifiers a call of \<open>process_message\<close> invoked, in order.\<close>

datatype call = Called_detect_spam | Called_extract_ticker | Called_is_question
  | Called_analyze_sentiment

text \<open>Python's truth value of \<open>result['topic']\<close>: neither \<open>None\<close> nor the empty string.\<close>

definition truthy :: "ustr option \<Rightarrow> bool" where
  "truthy topic = (case topic of None \<Rightarrow> False | Some s \<Rightarrow> s \<noteq> [])"

text \<open>
  \<open>chat_viz_backend.py\<close>: the history and the discovered set are module globals, passed and
  returned here as a pair.
\<close>

definition process_message ::
  "env \<Rightarrow> rat \<Rightarrow> chat_msg \<Rightarrow> history \<times> ustr set \<Rightarrow> processed \<times> (history \<times> ustr set) \<times> call list" where
  "process_message e now chat g =
     (let txt = convert_emoji_codes e (c_message chat);
          author = c_author chat;
          spam_result = detect_spam e now txt author (fst g);
          extracted = extract_ticker e txt (snd g);
          topic = fst extracted;
          question = is_question e txt
      in (\<lparr>p_text = txt, p_author = author, p_topic = topic,
            p_sentiment = (if truthy topic then analyze_sentiment e txt else neutral),
            p_isQuestion = question, p_vibe = None, p_spam = fst spam_result\<rparr>,
          (snd spam_result, snd extracted),
          [Called_detect_spam, Called_extract_ticker, Called_is_question]
            @ (if truthy topic then [Called_analyze_sentiment] else [])))"

text \<open>\<open>chat_viz_backend_v2.py\<close>: the state of one video.\<close>

record video_state =
  pulse_buffer :: "processed list"
  user_message_history :: history
  session_discovered :: "ustr set"

definition process_message_v2 ::
  "env \<Rightarrow> rat \<Rightarrow> chat_msg \<Rightarrow> video_state \<Rightarrow> processed \<times> video_state \<times> call list" where
  "process_message_v2 e now chat vs =
     (let txt = convert_emoji_codes e (c_message chat);
          author = c_author chat;
          is_privileged = (c_isChatOwner chat \<or> c_isChatModerator chat);
          spam_result =
            (if is_privileged
             then (\<lparr>is_spam = False, reason = None, reasons = [], confidence = 0\<rparr>,
                   user_message_history vs)
             else detect_spam_v2 e now txt author (user_message_history vs));
          extracted = extract_ticker_v2 e txt (session_discovered vs);
          topic = fst extracted;
          question = is_question e txt
      in (\<lparr>p_text = txt, p_author = author, p_topic = topic,
            p_sentiment = (if truthy topic then analyze_sentiment_v2 e txt else neutral),
            p_isQuestion = question, p_vibe = None, p_spam = fst spam_result\<rparr>,
          vs\<lparr>user_message_history := snd spam_result, session_discovered := snd extracted\<rparr>,
          (if is_privileged then [] else [Called_detect_spam])
            @ [Called_extract_ticker, Called_is_question]
            @ (if truthy topic then [Called_analyze_sentiment] else [])))"

section \<open>Vibe classification\<close>

text \<open>
  \<open>classify_vibe_batch\<close> with the slice bound as a parameter (the literal 10 in the first
  file, \<open>VIBE_BATCH_SIZE = 3\<close> in the second).  It returns the texts it sent to the completion
  service and the messages, those with an answer \<open>funny\<close> or \<open>uplifting\<close> updated.
\<close>

definition classify_vibe_batch :: "nat \<Rightarrow> env \<Rightarrow> processed list \<Rightarrow> ustr list \<times> processed list" where
  "classify_vibe_batch k e messages =
     (if messages = [] then ([], messages)
      else (map p_text (take k messages),
            map (\<lambda>m. case classify_vibe_single e (p_text m) of
                        Some v \<Rightarrow> m\<lparr>p_vibe := Some v\<rparr>
                      | None \<Rightarrow> m) (take k messages)
            @ drop k messages))"

definition VIBE_CHECK_INTERVAL :: rat where
  "VIBE_CHECK_INTERVAL = 30"

definition VIBE_BATCH_SIZE :: nat where
  "VIBE_BATCH_SIZE = 3"

text \<open>
  The vibe block of the scraper loop, on the loop's locals \<open>vibe_batch\<close> and
  \<open>last_vibe_check\<close>: the texts queried, the messages broadcast as \<open>vibe\<close>, and the locals
  afterwards.
\<close>

definition vibe_pass ::
  "rat \<Rightarrow> nat \<Rightarrow> env \<Rightarrow> rat \<Rightarrow> processed list \<times> rat \<Rightarrow>
   ustr list \<times> processed list \<times> processed list \<times> rat" where
  "vibe_pass interval k e current_time loc =
     (if current_time - snd loc \<ge> interval \<and> fst loc \<noteq> []
      then (let r = classify_vibe_batch k e (last_n 20 (fst loc))
            in (fst r, filter (\<lambda>m. p_vibe m \<noteq> None) (snd r), [], current_time))
      else ([], [], fst loc, snd loc))"

definition vibe_pass_v1 ::
  "env \<Rightarrow> rat \<Rightarrow> processed list \<times> rat \<Rightarrow> ustr list \<times> processed list \<times> processed list \<times> rat" where
  "vibe_pass_v1 = vibe_pass 3 10"

definition vibe_pass_v2 ::
  "env \<Rightarrow> rat \<Rightarrow> processed list \<times> rat \<Rightarrow> ustr list \<times> processed list \<times> processed list \<times> rat" where
  "vibe_pass_v2 = vibe_pass VIBE_CHECK_INTERVAL VIBE_BATCH_SIZE"

section \<open>Sessions: the registry and the scraper of \<open>chat_viz_backend_v2.py\<close>\<close>

text \<open>
  The program runs on one asyncio event loop, so the code between two \<open>await\<close>s is atomic.
  The model has one step for each handler branch and one for each iteration of the scraper's
  loop; an iteration is taken as one step, although a handler can run while the iteration
  awaits the completion service.  Clients are numbered; a video id is a text.
\<close>

text \<open>The locals of \<open>scrape_youtube_chat\<close> that live across iterations.\<close>

record scraper =
  vibe_batch :: "processed list"
  last_vibe_check :: rat
  last_pulse_time :: rat
  spam_count :: nat
  msg_count :: nat

text \<open>A task that \<open>asyncio.create_task\<close> made: not yet run, or in its loop.\<close>

datatype task = Created | Running scraper

datatype event = Ev_connected | Ev_message processed | Ev_vibe processed | Ev_pulse ustr
  | Ev_error

text \<open>
  The module globals \<open>video_clients\<close>, \<open>active_scrapers\<close> and \<open>video_state\<close>, the handlers'
  local \<open>client_video_id\<close> by client, and two logs: the video id of every task created and
  every event broadcast.
\<close>

record registry =
  video_clients :: "ustr \<rightharpoonup> nat set"
  active_scrapers :: "ustr \<rightharpoonup> task"
  video_state_map :: "ustr \<rightharpoonup> video_state"
  client_video_id :: "nat \<rightharpoonup> ustr"
  created_tasks :: "ustr list"
  broadcasts :: "(ustr \<times> event) list"

definition fresh_state :: video_state where
  "fresh_state = \<lparr>pulse_buffer = [], user_message_history = Map.empty, session_discovered = {}\<rparr>"

definition get_video_state :: "ustr \<Rightarrow> registry \<Rightarrow> video_state \<times> registry" where
  "get_video_state video_id st =
     (case video_state_map st video_id of
        Some vs \<Rightarrow> (vs, st)
      | None \<Rightarrow> (fresh_state, st\<lparr>video_state_map := (video_state_map st)(video_id \<mapsto> fresh_state)\<rparr>))"

text \<open>\<open>broadcast_to_video\<close>: nothing is sent when the video has no client.\<close>

definition broadcast_to_video :: "ustr \<Rightarrow> event \<Rightarrow> registry \<Rightarrow> registry" where
  "broadcast_to_video video_id ev st =
     (case video_clients st video_id of
        None \<Rightarrow> st
      | Some cs \<Rightarrow> if cs = {} then st else st\<lparr>broadcasts := broadcasts st @ [(video_id, ev)]\<rparr>)"

text \<open>
  The \<open>SUBSCRIBE\<close> branch of \<open>handle_client\<close> for a resolved video id; the empty id is answered
  with an error to the client and changes nothing.
\<close>

definition subscribe :: "nat \<Rightarrow> ustr \<Rightarrow> registry \<Rightarrow> registry" where
  "subscribe ws video_id st =
     (if video_id = [] then st
      else
        (let vc = video_clients st;
             vc = (case client_video_id st ws of
                     None \<Rightarrow> vc
                   | Some old \<Rightarrow> (case vc old of None \<Rightarrow> vc | Some cs \<Rightarrow> vc(old \<mapsto> cs - {ws})));
             cs = (case vc video_id of None \<Rightarrow> {} | Some cs \<Rightarrow> cs);
             vc = vc(video_id \<mapsto> insert ws cs);
             st = st\<lparr>video_clients := vc, client_video_id := (client_video_id st)(ws \<mapsto> video_id)\<rparr>
         in case active_scrapers st video_id of
              Some _ \<Rightarrow> st
            | None \<Rightarrow> st\<lparr>active_scrapers := (active_scrapers st)(video_id \<mapsto> Created),
                          created_tasks := created_tasks st @ [video_id]\<rparr>))"

text \<open>The \<open>UNSUBSCRIBE\<close> branch.\<close>

definition unsubscribe :: "nat \<Rightarrow> registry \<Rightarrow> registry" where
  "unsubscribe ws st =
     (case client_video_id st ws of
        None \<Rightarrow> st
      | Some v \<Rightarrow>
          (case video_clients st v of
             None \<Rightarrow> st
           | Some cs \<Rightarrow> st\<lparr>video_clients := (video_clients st)(v \<mapsto> cs - {ws}),
                          client_video_id := (client_video_id st)(ws := None)\<rparr>))"

text \<open>The \<open>finally\<close> of \<open>handle_client\<close>, when the connection ends.\<close>

definition disconnect :: "nat \<Rightarrow> registry \<Rightarrow> registry" where
  "disconnect ws st =
     (case client_video_id st ws of
        None \<Rightarrow> st
      | Some v \<Rightarrow>
          (case video_clients st v of
             None \<Rightarrow> st\<lparr>client_video_id := (client_video_id st)(ws := None)\<rparr>
           | Some cs \<Rightarrow> st\<lparr>video_clients := (video_clients st)(v \<mapsto> cs - {ws}),
                          client_video_id := (client_video_id st)(ws := None)\<rparr>))"

text \<open>The \<open>finally\<close> of \<open>scrape_youtube_chat\<close>.\<close>

definition scraper_cleanup :: "ustr \<Rightarrow> registry \<Rightarrow> registry" where
  "scraper_cleanup video_id st = st\<lparr>active_scrapers := (active_scrapers st)(video_id := None)\<rparr>"

text \<open>
  The start of a task, up to the loop: it takes the state of the video, connects to the chat
  (\<open>connect_ok\<close> says whether \<open>pytchat.create\<close> returned) and reads the loop's clock.
\<close>

definition scraper_start :: "ustr \<Rightarrow> bool \<Rightarrow> rat \<Rightarrow> registry \<Rightarrow> registry" where
  "scraper_start video_id connect_ok t st =
     (case active_scrapers st video_id of
        Some Created \<Rightarrow>
          (let st = snd (get_video_state video_id st) in
           if connect_ok
           then (broadcast_to_video video_id Ev_connected st)
                  \<lparr>active_scrapers := (active_scrapers st)(video_id \<mapsto>
                     Running \<lparr>vibe_batch = [], last_vibe_check = t, last_pulse_time = t,
                              spam_count = 0, msg_count = 0\<rparr>)\<rparr>
           else scraper_cleanup video_id (broadcast_to_video video_id Ev_error st))
      | _ \<Rightarrow> st)"

text \<open>
  The body of the \<open>for\<close> loop for one chat item, read at time \<open>now\<close>: the video's state, the
  locals and the events to broadcast.
\<close>

definition handle_item ::
  "env \<Rightarrow> video_state \<times> scraper \<times> event list \<Rightarrow> rat \<times> chat_msg \<Rightarrow> video_state \<times> scraper \<times> event list" where
  "handle_item e acc item =
     (let vs = fst acc; sc = fst (snd acc); evs = snd (snd acc);
          r = process_message_v2 e (fst item) (snd item) vs;
          pm = fst r;
          vs = fst (snd r);
          sc = sc\<lparr>msg_count := msg_count sc + 1\<rparr>;
          spam_info = p_spam pm
      in if is_spam spam_info then (vs, sc\<lparr>spam_count := spam_count sc + 1\<rparr>, evs)
         else if confidence spam_info \<ge> 5 / 10 \<and> llm_spam_check e (p_text pm)
         then (vs, sc\<lparr>spam_count := spam_count sc + 1\<rparr>, evs)
         else (vs\<lparr>pulse_buffer := pulse_buffer vs @ [pm]\<rparr>,
               sc\<lparr>vibe_batch := vibe_batch sc @ [pm]\<rparr>,
               evs @ (if truthy (p_topic pm) \<or> p_isQuestion pm then [Ev_message pm] else [])))"

definition PULSE_INTERVAL :: rat where
  "PULSE_INTERVAL = 120"

text \<open>
  One iteration of the \<open>while\<close> loop of the task of a video at loop time \<open>t\<close>.  \<open>alive\<close> is
  \<open>chat.is_alive()\<close>; \<open>items\<close> is what \<open>chat.get().sync_items()\<close> yields, each item with the
  time at which it is processed, or \<open>None\<close> when the call raises.
\<close>

definition scraper_iteration ::
  "env \<Rightarrow> ustr \<Rightarrow> bool \<Rightarrow> (rat \<times> chat_msg) list option \<Rightarrow> rat \<Rightarrow> registry \<Rightarrow> registry" where
  "scraper_iteration e video_id alive items t st =
     (case active_scrapers st video_id of
        Some (Running sc) \<Rightarrow>
          if \<not> alive then scraper_cleanup video_id st
          else if (case video_clients st video_id of None \<Rightarrow> True | Some cs \<Rightarrow> cs = {})
          then scraper_cleanup video_id st
          else
            (case (items, video_state_map st video_id) of
               (Some its, Some vs) \<Rightarrow>
                 (let r = foldl (handle_item e) (vs, sc, []) its;
                      vs = fst r; sc = fst (snd r);
                      st = foldl (\<lambda>s ev. broadcast_to_video video_id ev s) st (snd (snd r));
                      vp = vibe_pass_v2 e t (vibe_batch sc, last_vibe_check sc);
                      st = foldl (\<lambda>s m. broadcast_to_video video_id (Ev_vibe m) s) st (fst (snd vp));
                      sc = sc\<lparr>vibe_batch := fst (snd (snd vp)), last_vibe_check := snd (snd (snd vp))\<rparr>;
                      do_pulse = (t - last_pulse_time sc \<ge> PULSE_INTERVAL \<and> length (pulse_buffer vs) \<ge> 10);
                      st = (if do_pulse
                            then (case generate_pulse_summary e (pulse_buffer vs) of
                                    None \<Rightarrow> st
                                  | Some p \<Rightarrow> broadcast_to_video video_id (Ev_pulse p) st)
                            else st);
                      vs = (if do_pulse then vs\<lparr>pulse_buffer := []\<rparr> else vs);
                      sc = (if do_pulse then sc\<lparr>last_pulse_time := t\<rparr> else sc)
                  in st\<lparr>video_state_map := (video_state_map st)(video_id \<mapsto> vs),
                        active_scrapers := (active_scrapers st)(video_id \<mapsto> Running sc)\<rparr>)
             | _ \<Rightarrow> scraper_cleanup video_id (broadcast_to_video video_id Ev_error st))
      | _ \<Rightarrow> st)"

definition empty_registry :: registry where
  "empty_registry = \<lparr>video_clients = Map.empty, active_scrapers = Map.empty,
     video_state_map = Map.empty, client_video_id = Map.empty, created_tasks = [],
     broadcasts = []\<rparr>"

section \<open>A concrete environment\<close>

text \<open>
  An environment to run the definitions in: a polynomial hash, the block of pictographs as
  single-code-point emoji, texts without emoji codes, a question mark as the only question
  pattern, and a completion service that never answers.  Its Unicode tables are those of
  Python 3 on the code points above 127 that occur in the glyph literals of
  \<open>analyze_sentiment\<close> and on their case variants: \<open>U+00D0\<close>, \<open>U+00F0\<close>, \<open>U+00FF\<close>,
  \<open>U+0160\<close>, \<open>U+0161\<close>, \<open>U+0178\<close> and \<open>U+02C6\<close> are letters and word characters, the first,
  fourth and sixth upper case, and the other code points of the literals are symbols.  The
  examples below are texts over ASCII and these code points.
\<close>

definition env0 :: env where
  "env0 = \<lparr>py_hash = (\<lambda>s. int (foldr (\<lambda>c h. c + 31 * h) s 0)),
            EMOJI_DATA = (\<lambda>c. 127744 \<le> c \<and> c \<le> 129791),
            convert_emoji_codes = (\<lambda>s. s),
            is_question = (\<lambda>s. 63 \<in> set s),
            llm_spam_check = (\<lambda>s. False),
            classify_vibe_single = (\<lambda>s. None),
            generate_pulse_summary = (\<lambda>ms. None),
            uni_word = (\<lambda>c. c \<in> {208, 240, 255, 352, 353, 376, 710}),
            uni_digit = (\<lambda>c. False),
            uni_isalpha = (\<lambda>c. c \<in> {208, 240, 255, 352, 353, 376, 710}),
            uni_isupper = (\<lambda>c. c \<in> {208, 352, 376}),
            uni_lower = map (\<lambda>c. if is_AZ c then c + 32 else if c = 208 then 240
                                 else if c = 352 then 353 else if c = 376 then 255 else c),
            uni_upper = map (\<lambda>c. if is_az c then c - 32 else if c = 240 then 208
                                 else if c = 353 then 352 else if c = 255 then 376 else c),
            uni_ignorecase = (\<lambda>l c. False)\<rparr>"

section \<open>The rules accumulate a maximum\<close>

text \<open>
  The invariant of the rule chain: the reasons so far are distinct and among those already
  tried, the running confidence is the maximum of their confidences (0 when none fired), and
  it is a multiple of 0.05.
\<close>

definition acc_ok :: "rat \<Rightarrow> reason set \<Rightarrow> reason list \<times> rat \<Rightarrow> bool" where
  "acc_ok rc seen st \<longleftrightarrow>
     distinct (fst st) \<and> set (fst st) \<subseteq> seen \<and>
     snd st = Max (insert 0 (rule_confidence rc ` set (fst st))) \<and>
     (\<exists>n::int. snd st = of_int n / 20)"

text \<open>What a call leaves in the history, and when the two history rules fire.\<close>

definition cleaned_entries :: "ustr \<Rightarrow> rat \<Rightarrow> history \<Rightarrow> (rat \<times> int) list" where
  "cleaned_entries author now h =
     (case clean_history author now h author of None \<Rightarrow> [] | Some es \<Rightarrow> es)"

text \<open>A run of messages of one author through \<open>detect_spam\<close> of the first file: the history.\<close>

definition feed :: "env \<Rightarrow> ustr \<Rightarrow> (rat \<times> ustr) list \<Rightarrow> history \<Rightarrow> history" where
  "feed e author msgs h = foldl (\<lambda>h m. snd (detect_spam e (fst m) (snd m) author h)) h msgs"

text \<open>Twenty-one one-letter messages, \<open>a\<close> to \<open>u\<close>, one per second from second 0.\<close>

definition burst21 :: "(rat \<times> ustr) list" where
  "burst21 = map (\<lambda>i. (of_nat i, [97 + i]))
     [0, 1, 2, 3, 4, 5, 6, 7, 8, 9, 10, 11, 12, 13, 14, 15, 16, 17, 18, 19, 20]"

text \<open>Two chat messages by privileged authors: a greeting by a moderator, an advert by the owner.\<close>

definition mod_hi :: chat_msg where
  "mod_hi = \<lparr>c_message = U ''hi'', c_author = U ''mod'', c_isChatOwner = False,
             c_isChatModerator = True\<rparr>"

definition owner_advert :: chat_msg where
  "owner_advert = \<lparr>c_message = U ''free crypto airdrop 100x'', c_author = U ''owner'',
                   c_isChatOwner = True, c_isChatModerator = False\<rparr>"

text \<open>
  The total of one side as the code computes it: the number of distinct lower-case words of the
  text that are in the lexicon, plus 2 when at least one glyph of the side occurs in the text.
\<close>

definition side_total :: "env \<Rightarrow> string set \<Rightarrow> ustr list \<Rightarrow> ustr \<Rightarrow> nat" where
  "side_total e LEXICON GLYPHS txt =
     card {w \<in> set (findall_words e (lower e txt)). w \<in> U ` LEXICON}
     + (if list_ex (contains txt) GLYPHS then 2 else 0)"

text \<open>Two bullish glyphs and three bearish words.\<close>

definition two_glyphs_three_words :: ustr where
  "two_glyphs_three_words =
     [240, 376, 353, 8364] @ [32] @ [240, 376, 8220, 710] @ U '' put sell dump''"

text \<open>Two bearish words and a third with a positive glyph right after it.\<close>

definition glyph_touches_put :: ustr where
  "glyph_touches_put = U ''dump sell put'' @ [240, 376, 353, 8364]"

definition bob_buys_the_dip :: chat_msg where
  "bob_buys_the_dip = \<lparr>c_message = U ''buy the dip'', c_author = U ''bob'',
                       c_isChatOwner = False, c_isChatModerator = False\<rparr>"

text \<open>
  A pending batch of five messages as \<open>process_message\<close> leaves them (no vibe yet), oldest
  first, and a completion service that finds every text funny.
\<close>

definition plain_msg :: "ustr \<Rightarrow> processed" where
  "plain_msg txt = \<lparr>p_text = txt, p_author = U ''bob'', p_topic = None, p_sentiment = neutral,
     p_isQuestion = False, p_vibe = None,
     p_spam = \<lparr>is_spam = False, reason = None, reasons = [], confidence = 0\<rparr>\<rparr>"

definition batch5 :: "processed list" where
  "batch5 = map plain_msg [U ''m1'', U ''m2'', U ''m3'', U ''m4'', U ''m5'']"

definition env_funny :: env where
  "env_funny = env0\<lparr>classify_vibe_single := (\<lambda>s. Some funny)\<rparr>"

text \<open>What the registry holds for a video: an author's history and the discovered tickers.\<close>

definition history_of :: "registry \<Rightarrow> ustr \<Rightarrow> ustr \<Rightarrow> (rat \<times> int) list option" where
  "history_of st video_id author =
     (case video_state_map st video_id of
        None \<Rightarrow> None
      | Some vs \<Rightarrow> user_message_history vs author)"

definition discovered_of :: "registry \<Rightarrow> ustr \<Rightarrow> ustr set" where
  "discovered_of st video_id =
     (case video_state_map st video_id of None \<Rightarrow> {} | Some vs \<Rightarrow> session_discovered vs)"

text \<open>
  A session: client 7 subscribes to a video, the task starts and processes one message, the
  client unsubscribes, the next iteration of the task stops it; then the client subscribes
  again and the new task starts.
\<close>

definition bob_marks_zzz :: chat_msg where
  "bob_marks_zzz = \<lparr>c_message = U ''$zzz'', c_author = U ''bob'', c_isChatOwner = False,
                    c_isChatModerator = False\<rparr>"

definition watched :: registry where
  "watched =
     scraper_iteration env0 (U ''vid'') True (Some [(1, bob_marks_zzz)]) 1
       (scraper_start (U ''vid'') True 0 (subscribe 7 (U ''vid'') empty_registry))"

definition stopped :: registry where
  "stopped = scraper_iteration env0 (U ''vid'') True (Some []) 2 (unsubscribe 7 watched)"

definition watched_again :: registry where
  "watched_again = scraper_start (U ''vid'') True 3 (subscribe 7 (U ''vid'') stopped)"

text \<open>The same without a message: subscribe, start, unsubscribe.\<close>

definition left_alone :: registry where
  "left_alone =
     unsubscribe 7 (scraper_start (U ''vid'') True 0 (subscribe 7 (U ''vid'') empty_registry))"

text \<open>
  The expression \<open>\$([A-Z]{1,5})\b\<close> matches in \<open>s\<close> at position \<open>i\<close> with a group of \<open>k\<close>
  letters: a \<open>$\<close> at \<open>i\<close>, then \<open>k\<close> letters \<open>A\<close> to \<open>Z\<close> with \<open>k\<close> from 1 to 5, then a
  word boundary, that is the end of the text or a character that is not a word character.
\<close>

definition dollar_at :: "env \<Rightarrow> ustr \<Rightarrow> nat \<Rightarrow> nat \<Rightarrow> bool" where
  "dollar_at e s i k \<longleftrightarrow>
     i + k < length s \<and> s ! i = 36 \<and> 1 \<le> k \<and> k \<le> 5
     \<and> (\<forall>j<k. is_AZ (s ! (i + 1 + j)))
     \<and> (i + k + 1 < length s \<longrightarrow> \<not> is_word e (s ! (i + k + 1)))"

section \<open>Properties of the spam detector\<close>

lemma max_twentieth:
  assumes "a = of_int n / (20::rat)" "b = of_int m / (20::rat)"
  shows "\<exists>k::int. max a b = of_int k / 20"
  using assms by (cases "a \<le> b") (auto simp: max_def)

lemma fire_ok:
  assumes "acc_ok rc seen st" "r \<notin> seen" "k = rule_confidence rc r" "\<exists>n::int. k = of_int n / 20"
  shows "acc_ok rc (insert r seen) (fire cond r k st)"
proof (cases cond)
  case False
  then show ?thesis using assms by (auto simp: acc_ok_def fire_def)
next
  case True
  obtain rs c where st: "st = (rs, c)" by (cases st)
  have fin: "finite (insert 0 (rule_confidence rc ` set rs))" by simp
  have "Max (insert 0 (rule_confidence rc ` set (rs @ [r])))
        = max (rule_confidence rc r) (Max (insert 0 (rule_confidence rc ` set rs)))"
    using Max_insert[OF fin, of "rule_confidence rc r"] by (simp add: insert_commute)
  moreover obtain n m :: int where "c = of_int n / 20" "k = of_int m / 20"
    using assms st by (auto simp: acc_ok_def)
  then have "\<exists>j::int. max c k = of_int j / 20" by (rule max_twentieth)
  ultimately show ?thesis using assms True st
    by (auto simp: acc_ok_def fire_def max.commute)
qed

lemma round2_twentieth: "round2 (of_int n / 20) = of_int n / 20"
proof -
  have "(of_int n / 20 :: rat) * 100 = of_int (5 * n)" by simp
  then show ?thesis unfolding round2_def Let_def by (simp del: of_int_mult)
qed

lemma acc_ok_init: "acc_ok rc {} ([], 0)"
  by (simp add: acc_ok_def)

lemma twentieth_numeral [simp]:
  "\<exists>n::int. (9 / 10 :: rat) = of_int n / 20"
  "\<exists>n::int. (85 / 100 :: rat) = of_int n / 20"
  "\<exists>n::int. (8 / 10 :: rat) = of_int n / 20"
  "\<exists>n::int. (95 / 100 :: rat) = of_int n / 20"
  "\<exists>n::int. (5 / 10 :: rat) = of_int n / 20"
  "\<exists>n::int. (4 / 10 :: rat) = of_int n / 20"
  "\<exists>n::int. (6 / 10 :: rat) = of_int n / 20"
  by (rule exI[of _ 18], simp, rule exI[of _ 17], simp, rule exI[of _ 16], simp,
      rule exI[of _ 19], simp, rule exI[of _ 10], simp, rule exI[of _ 8], simp,
      rule exI[of _ 12], simp)

lemma rules_ok:
  assumes rc: "\<exists>n::int. rc = of_int n / 20"
  shows "\<exists>seen. acc_ok rc seen
    (fire b8 excessive_emojis (5 / 10) (fire b7 repetitive_chars (4 / 10)
      (fire b6 excessive_caps (5 / 10) (fire b5 crypto_scam (95 / 100)
        (fire b4 pump_promo (8 / 10) (fire b3 promo_link (85 / 100)
          (fire b2 rapid_fire rc (fire b1 duplicate (9 / 10) ([], 0)))))))))"
proof -
  note a0 = acc_ok_init[of rc]
  have a1: "acc_ok rc {duplicate} (fire b1 duplicate (9 / 10) ([], 0))"
    using fire_ok[OF a0, of duplicate "9 / 10" b1] by simp
  have a2: "acc_ok rc {rapid_fire, duplicate} (fire b2 rapid_fire rc (fire b1 duplicate (9 / 10) ([], 0)))"
    using fire_ok[OF a1, of rapid_fire rc b2] rc by simp
  note a3 = fire_ok[OF a2, of promo_link "85 / 100" b3, simplified]
  note a4 = fire_ok[OF a3, of pump_promo "8 / 10" b4, simplified]
  note a5 = fire_ok[OF a4, of crypto_scam "95 / 100" b5, simplified]
  note a6 = fire_ok[OF a5, of excessive_caps "5 / 10" b6, simplified]
  note a7 = fire_ok[OF a6, of repetitive_chars "4 / 10" b7, simplified]
  note a8 = fire_ok[OF a7, of excessive_emojis "5 / 10" b8, simplified]
  show ?thesis
    by (rule exI[of _ "{excessive_emojis, repetitive_chars, excessive_caps, crypto_scam,
          pump_promo, promo_link, rapid_fire, duplicate}"]) (use a8 in simp)
qed

lemma detect_spam_core_combination:
  assumes rc: "\<exists>n::int. rc = of_int n / 20"
  shows "let v = fst (detect_spam_core cnt rc l p c e now text author h);
             m = Max (insert 0 (rule_confidence rc ` set (reasons v)))
         in distinct (reasons v)
            \<and> confidence v = (if 2 \<le> length (reasons v) \<and> m < 7 / 10 then min (75 / 100) (m + 2 / 10) else m)
            \<and> (is_spam v \<longleftrightarrow> 7 / 10 \<le> confidence v)"
proof -
  define uh where "uh = clean_history author now h"
  define es where "es = (case uh author of None \<Rightarrow> [] | Some es \<Rightarrow> es)"
  define st where "st =
    fire (10 < length (filter (EMOJI_DATA e) text)) excessive_emojis (5 / 10)
     (fire (repeated_chars text) repetitive_chars (4 / 10)
      (fire (caps_rule e text) excessive_caps (5 / 10)
       (fire (re_search e c text) crypto_scam (95 / 100)
        (fire (re_search e p text) pump_promo (8 / 10)
         (fire (re_search e l text) promo_link (85 / 100)
          (fire (uh author \<noteq> None \<and> cnt \<le> length (filter (\<lambda>ts. now - ts < 10) (map fst es))) rapid_fire rc
           (fire (uh author \<noteq> None \<and> py_hash e (strip (lower e text)) \<in> set (map snd es)) duplicate (9 / 10)
             ([], 0))))))))"
  obtain seen where ok: "acc_ok rc seen st"
    unfolding st_def using rules_ok[OF rc] by blast
  define c' where "c' = (if 2 \<le> length (fst st) \<and> snd st < 7 / 10 then min (75 / 100) (snd st + 2 / 10) else snd st)"
  have v: "fst (detect_spam_core cnt rc l p c e now text author h)
        = \<lparr>is_spam = (7 / 10 \<le> c'), reason = (case fst st of [] \<Rightarrow> None | r # _ \<Rightarrow> Some r),
            reasons = fst st, confidence = round2 c'\<rparr>"
    unfolding detect_spam_core_def Let_def st_def c'_def uh_def es_def by simp
  obtain n :: int where n: "snd st = of_int n / 20" using ok by (auto simp: acc_ok_def)
  have "\<exists>k::int. c' = of_int k / 20"
  proof (cases "2 \<le> length (fst st) \<and> snd st < 7 / 10")
    case False
    then show ?thesis using n by (auto simp: c'_def)
  next
    case True
    have "snd st + 2 / 10 = of_int (n + 4) / 20" using n by simp
    moreover have "(75 / 100 :: rat) = of_int 15 / 20" by simp
    ultimately have "\<exists>k::int. min (75 / 100) (snd st + 2 / 10) = of_int k / 20"
      by (metis min_def)
    then show ?thesis using True by (simp add: c'_def)
  qed
  then obtain k :: int where "c' = of_int k / 20" by blast
  then have r: "round2 c' = c'" by (simp only: round2_twentieth)
  show ?thesis
    unfolding Let_def v using ok r by (simp add: acc_ok_def c'_def)
qed

lemma cleaned_entries_eq:
  "cleaned_entries author now h =
     (case h author of None \<Rightarrow> []
      | Some es \<Rightarrow> last_n MAX_HISTORY_PER_USER (filter (\<lambda>(ts, x). now - ts < HISTORY_WINDOW) es))"
  by (simp add: cleaned_entries_def clean_history_def split: option.splits)

lemma detect_spam_core_history:
  "snd (detect_spam_core cnt rc l p c e now txt author h) =
     (clean_history author now h)(author \<mapsto>
        cleaned_entries author now h @ [(now, py_hash e (strip (lower e txt)))])"
  by (simp add: detect_spam_core_def Let_def cleaned_entries_def)

lemma fst_fire: "fst (fire b r k st) = (if b then fst st @ [r] else fst st)"
  by (simp add: fire_def)

lemma detect_spam_core_rapid_fire:
  "rapid_fire \<in> set (reasons (fst (detect_spam_core cnt rc l p c e now txt author h)))
   \<longleftrightarrow> h author \<noteq> None \<and>
       cnt \<le> length (filter (\<lambda>ts. now - ts < 10) (map fst (cleaned_entries author now h)))"
  by (simp add: detect_spam_core_def Let_def fst_fire cleaned_entries_def clean_history_def
      split: option.splits)

lemma detect_spam_core_duplicate:
  "duplicate \<in> set (reasons (fst (detect_spam_core cnt rc l p c e now txt author h)))
   \<longleftrightarrow> h author \<noteq> None \<and>
       py_hash e (strip (lower e txt)) \<in> snd ` set (cleaned_entries author now h)"
  by (simp add: detect_spam_core_def Let_def fst_fire cleaned_entries_def clean_history_def
      split: option.splits)



lemma U_simps: "U [] = []" "U (x # xs) = of_char x # U xs"
  by (simp_all add: U_def)






lemma reason_confidence_le:
  assumes rc: "\<exists>n::int. rc = of_int n / 20"
    and r: "r \<in> set (reasons (fst (detect_spam_core cnt rc l p c e now txt author h)))"
  shows "rule_confidence rc r \<le> confidence (fst (detect_spam_core cnt rc l p c e now txt author h))"
proof -
  define v where "v = fst (detect_spam_core cnt rc l p c e now txt author h)"
  define m where "m = Max (insert 0 (rule_confidence rc ` set (reasons v)))"
  have "rule_confidence rc r \<le> m"
    unfolding m_def using r by (intro Max_ge) (auto simp: v_def)
  moreover have "confidence v = (if 2 \<le> length (reasons v) \<and> m < 7 / 10 then min (75 / 100) (m + 2 / 10) else m)"
    using detect_spam_core_combination[OF rc]
    unfolding Let_def v_def m_def by blast
  ultimately show ?thesis unfolding v_def[symmetric] by (auto simp: min_def)
qed

lemma is_spam_iff:
  assumes rc: "\<exists>n::int. rc = of_int n / 20"
  shows "is_spam (fst (detect_spam_core cnt rc l p c e now txt author h))
     \<longleftrightarrow> 7 / 10 \<le> confidence (fst (detect_spam_core cnt rc l p c e now txt author h))"
  using detect_spam_core_combination[OF rc]
  unfolding Let_def by blast

text \<open>
  Claim C3, as the code has it.  The rapid-fire rule counts the author's earlier messages that
  the cleaned history holds with a timestamp less than 10 seconds old; the message being scored
  is appended only afterwards.  It fires exactly when there are at least 3 of them in the first
  file (so on the 4th message of a burst) and at least 5 in the second (on the 6th); when it
  fires, the returned confidence is at least the rule's 0.8 in the first file and 0.6 in the
  second.
\<close>

theorem rapid_fire_needs_earlier_messages:
  "(rapid_fire \<in> set (reasons (fst (detect_spam e now txt author h)))
      \<longleftrightarrow> 3 \<le> length (filter (\<lambda>ts. now - ts < 10) (map fst (cleaned_entries author now h))))
   \<and> (rapid_fire \<in> set (reasons (fst (detect_spam e now txt author h)))
      \<longrightarrow> 8 / 10 \<le> confidence (fst (detect_spam e now txt author h)))
   \<and> (rapid_fire \<in> set (reasons (fst (detect_spam_v2 e now txt author h)))
      \<longleftrightarrow> 5 \<le> length (filter (\<lambda>ts. now - ts < 10) (map fst (cleaned_entries author now h))))
   \<and> (rapid_fire \<in> set (reasons (fst (detect_spam_v2 e now txt author h)))
      \<longrightarrow> 6 / 10 \<le> confidence (fst (detect_spam_v2 e now txt author h)))"
proof -
  have fired: "(rapid_fire \<in> set (reasons (fst (detect_spam_core cnt rc l p c e now txt author h))))
      = (cnt \<le> length (filter (\<lambda>ts. now - ts < 10) (map fst (cleaned_entries author now h))))"
    if "0 < cnt" for cnt rc l p c
  proof (cases "h author")
    case None
    then show ?thesis using that by (simp add: detect_spam_core_rapid_fire cleaned_entries_eq)
  next
    case (Some es)
    then show ?thesis by (simp add: detect_spam_core_rapid_fire)
  qed
  have a: "\<exists>n::int. (8 / 10 :: rat) = of_int n / 20" and b: "\<exists>n::int. (6 / 10 :: rat) = of_int n / 20"
    by simp_all
  have c1: "rapid_fire \<in> set (reasons (fst (detect_spam e now txt author h)))
      \<longleftrightarrow> 3 \<le> length (filter (\<lambda>ts. now - ts < 10) (map fst (cleaned_entries author now h)))"
    unfolding detect_spam_def by (rule fired) simp
  have c2: "rapid_fire \<in> set (reasons (fst (detect_spam e now txt author h)))
      \<longrightarrow> 8 / 10 \<le> confidence (fst (detect_spam e now txt author h))"
    unfolding detect_spam_def using reason_confidence_le[OF a, of rapid_fire] by auto
  have c3: "rapid_fire \<in> set (reasons (fst (detect_spam_v2 e now txt author h)))
      \<longleftrightarrow> 5 \<le> length (filter (\<lambda>ts. now - ts < 10) (map fst (cleaned_entries author now h)))"
    unfolding detect_spam_v2_def by (rule fired) simp
  have c4: "rapid_fire \<in> set (reasons (fst (detect_spam_v2 e now txt author h)))
      \<longrightarrow> 6 / 10 \<le> confidence (fst (detect_spam_v2 e now txt author h))"
    unfolding detect_spam_v2_def using reason_confidence_le[OF b, of rapid_fire] by auto
  from c1 c2 c3 c4 show ?thesis by blast
qed

lemmas eval_history = detect_spam_core_history cleaned_entries_eq clean_history_def last_n_def
  HISTORY_WINDOW_def MAX_HISTORY_PER_USER_def

text \<open>
  Three distinct messages of one author at seconds 0, 1 and 2: scoring the third does not give
  the reason \<open>rapid_fire\<close>, against claim C3 as stated.
\<close>

theorem third_message_is_not_rapid_fire:
  "rapid_fire \<notin> set (reasons (fst (detect_spam env0 2 (U ''c'') (U ''bob'')
      (snd (detect_spam env0 1 (U ''b'') (U ''bob'')
        (snd (detect_spam env0 0 (U ''a'') (U ''bob'') Map.empty)))))))"
  unfolding detect_spam_def detect_spam_core_rapid_fire
  by (simp add: eval_history)

text \<open>A fourth message at second 3 does.\<close>

theorem rapid_fire_needs_earlier_messages_witness:
  "rapid_fire \<in> set (reasons (fst (detect_spam env0 3 (U ''d'') (U ''bob'')
      (feed env0 (U ''bob'') [(0, U ''a''), (1, U ''b''), (2, U ''c'')] Map.empty))))
   \<and> 8 / 10 \<le> confidence (fst (detect_spam env0 3 (U ''d'') (U ''bob'')
      (feed env0 (U ''bob'') [(0, U ''a''), (1, U ''b''), (2, U ''c'')] Map.empty)))"
proof -
  define h where "h = feed env0 (U ''bob'') [(0, U ''a''), (1, U ''b''), (2, U ''c'')] Map.empty"
  have "3 \<le> length (filter (\<lambda>ts. 3 - ts < 10) (map fst (cleaned_entries (U ''bob'') 3 h)))"
    unfolding h_def feed_def detect_spam_def by (simp add: eval_history)
  then show ?thesis
    using rapid_fire_needs_earlier_messages[of env0 3 "U ''d''" "U ''bob''" h]
    unfolding h_def[symmetric] by blast
qed

lemma length_last_n: "length (last_n n xs) \<le> n"
  by (simp add: last_n_def)

lemma detect_spam_history_bounds:
  "\<exists>es. snd (detect_spam_core cnt rc l p c e now txt author h) author = Some es
        \<and> length es \<le> MAX_HISTORY_PER_USER + 1
        \<and> (\<forall>(ts, x) \<in> set es. now - ts < HISTORY_WINDOW)"
proof -
  have "length (cleaned_entries author now h) \<le> MAX_HISTORY_PER_USER"
    by (simp add: cleaned_entries_eq length_last_n split: option.splits)
  moreover have "\<forall>(ts, x) \<in> set (cleaned_entries author now h). now - ts < HISTORY_WINDOW"
    by (auto simp: cleaned_entries_eq last_n_def split: option.splits dest: in_set_dropD)
  ultimately show ?thesis
    by (auto simp: detect_spam_core_history HISTORY_WINDOW_def)
qed

text \<open>
  Claim C9 on the code.  \<open>clean_history\<close> cuts the author's list to 20 entries before the rules
  run and the new entry is appended after them, so the list that a call leaves can hold 21
  entries, one more than \<open>MAX_HISTORY_PER_USER\<close>: it does after 21 messages within a minute.
\<close>

theorem history_holds_21_entries:
  "map_option length (feed env0 (U ''bob'') burst21 Map.empty (U ''bob'')) = Some 21
   \<and> MAX_HISTORY_PER_USER < 21"
  unfolding feed_def detect_spam_def burst21_def
  by (simp add: eval_history)

lemma process_message_spam:
  "p_spam (fst (process_message e now chat g))
     = fst (detect_spam e now (convert_emoji_codes e (c_message chat)) (c_author chat) (fst g))"
  "fst (fst (snd (process_message e now chat g)))
     = snd (detect_spam e now (convert_emoji_codes e (c_message chat)) (c_author chat) (fst g))"
  "Called_detect_spam \<in> set (snd (snd (process_message e now chat g)))"
  by (simp_all add: process_message_def Let_def)

text \<open>
  Claim C4, as the code has it.  In \<open>chat_viz_backend_v2.py\<close> a message of the channel owner
  or of a moderator gets the verdict not spam with confidence 0 and no reasons, \<open>detect_spam\<close>
  is not called, and the history is left as it was, whatever the text.  (The first file has no
  such check.)
\<close>

theorem privileged_author_bypasses_spam_v2:
  "c_isChatOwner chat \<or> c_isChatModerator chat \<Longrightarrow>
     p_spam (fst (process_message_v2 e now chat vs))
       = \<lparr>is_spam = False, reason = None, reasons = [], confidence = 0\<rparr>
     \<and> Called_detect_spam \<notin> set (snd (snd (process_message_v2 e now chat vs)))
     \<and> user_message_history (fst (snd (process_message_v2 e now chat vs)))
       = user_message_history vs"
  by (simp add: process_message_v2_def Let_def)

theorem privileged_author_bypasses_spam_v2_witness:
  "(c_isChatOwner owner_advert \<or> c_isChatModerator owner_advert)
   \<and> \<not> is_spam (p_spam (fst (process_message_v2 env0 0 owner_advert fresh_state)))
   \<and> confidence (p_spam (fst (process_message_v2 env0 0 owner_advert fresh_state))) = 0
   \<and> user_message_history (fst (snd (process_message_v2 env0 0 owner_advert fresh_state)))
        (U ''owner'') = None"
proof -
  have p: "c_isChatOwner owner_advert \<or> c_isChatModerator owner_advert"
    by (simp add: owner_advert_def)
  show ?thesis
    using p privileged_author_bypasses_spam_v2[OF p, of env0 0 fresh_state]
    by (simp add: fresh_state_def)
qed

text \<open>
  In \<open>chat_viz_backend.py\<close> the moderator's greeting is recorded in the history, and when it
  is sent again a second later \<open>detect_spam\<close> is called and the verdict is spam, against claim
  C4 as stated.
\<close>

theorem privileged_author_is_scored_v1:
  "c_isChatModerator mod_hi
   \<and> fst (fst (snd (process_message env0 0 mod_hi (Map.empty, {})))) (U ''mod'') \<noteq> None
   \<and> is_spam (p_spam (fst (process_message env0 1 mod_hi
        (fst (snd (process_message env0 0 mod_hi (Map.empty, {})))))))
   \<and> Called_detect_spam \<in> set (snd (snd (process_message env0 1 mod_hi
        (fst (snd (process_message env0 0 mod_hi (Map.empty, {})))))))"
proof -
  define g where "g = fst (snd (process_message env0 0 mod_hi (Map.empty, {})))"
  have h: "fst g = [U ''mod'' \<mapsto> [(0, py_hash env0 (strip (lower env0 (U ''hi''))))]]"
    unfolding g_def process_message_spam detect_spam_def
    by (simp add: eval_history mod_hi_def env0_def)
  have "duplicate \<in> set (reasons (fst (detect_spam env0 1 (U ''hi'') (U ''mod'') (fst g))))"
    unfolding detect_spam_def detect_spam_core_duplicate h
    by (simp add: cleaned_entries_eq last_n_def HISTORY_WINDOW_def MAX_HISTORY_PER_USER_def)
  moreover have tw: "\<exists>n::int. (8 / 10 :: rat) = of_int n / 20" by simp
  ultimately have "9 / 10 \<le> confidence (fst (detect_spam env0 1 (U ''hi'') (U ''mod'') (fst g)))"
    unfolding detect_spam_def using reason_confidence_le[OF tw, of duplicate] by fastforce
  then have "is_spam (fst (detect_spam env0 1 (U ''hi'') (U ''mod'') (fst g)))"
    unfolding detect_spam_def is_spam_iff[OF tw] by simp
  then have "is_spam (p_spam (fst (process_message env0 1 mod_hi g)))"
    unfolding process_message_spam by (simp add: mod_hi_def env0_def)
  moreover have "fst g (U ''mod'') \<noteq> None" unfolding h by simp
  ultimately show ?thesis
    unfolding g_def[symmetric] using process_message_spam(3) by (simp add: mod_hi_def)
qed

section \<open>Properties of the classifiers\<close>

lemma env0_convert: "convert_emoji_codes env0 s = s"
  by (simp add: env0_def)

lemma env0_tables:
  "uni_word env0 = (\<lambda>c. c \<in> {208, 240, 255, 352, 353, 376, 710})"
  "uni_digit env0 = (\<lambda>c. False)"
  "uni_lower env0 = map (\<lambda>c. if is_AZ c then c + 32 else if c = 208 then 240
                               else if c = 352 then 353 else if c = 376 then 255 else c)"
  "uni_upper env0 = map (\<lambda>c. if is_az c then c - 32 else if c = 240 then 208
                               else if c = 353 then 352 else if c = 255 then 376 else c)"
  by (simp_all add: env0_def)

lemmas text_eval = U_simps ascii_def lower_def lower_cp_def upper_def upper_cp_def is_AZ_def
  is_az_def is_digit_def is_word_def findall_words_def findall_tickers_def env0_tables

lemma not_in_U_image: "\<not> list_all (\<lambda>c. c < 256) w \<Longrightarrow> (w \<in> U ` S) = False"
  by (auto simp: U_def list_all_iff)

lemma card_inter_eval: "card (set ws \<inter> S) = length (remdups (filter (\<lambda>w. w \<in> S) ws))"
proof -
  have "set ws \<inter> S = set (filter (\<lambda>w. w \<in> S) ws)" by auto
  then show ?thesis by (simp only: length_remdups_card_conv)
qed

lemma card_filter_eval: "card {w \<in> set ws. w \<in> S} = length (remdups (filter (\<lambda>w. w \<in> S) ws))"
proof -
  have "{w \<in> set ws. w \<in> S} = set (filter (\<lambda>w. w \<in> S) ws)" by auto
  then show ?thesis by (simp only: length_remdups_card_conv)
qed

lemma inj_U: "inj U"
  unfolding U_def by (intro inj_mapI) (rule inj_of_char)

lemma U_image_iff: "U s \<in> U ` S \<longleftrightarrow> s \<in> S"
  using inj_U by (auto dest: injD)

lemma U_eq_iff: "U s = U t \<longleftrightarrow> s = t"
  using inj_U by (auto dest: injD)

lemma filter_nil_iff_ex: "(\<exists>g \<in> set gs. P g) \<longleftrightarrow> filter P gs \<noteq> []"
  by (simp add: filter_empty_conv)

text \<open>
  Claim C7, as the code has it.  \<open>analyze_sentiment\<close> compares the two totals: the number of
  distinct words (maximal runs of word characters of the lower-cased text) that are in the
  bullish (bearish) lexicon, plus 2 once when at least one of the positive (negative) glyphs
  occurs in the text, however many of them do.  The larger total wins and a tie is neutral.
  This holds whatever the Unicode tables say about the characters of the glyphs.
\<close>

theorem sentiment_adds_two_once_per_side:
  "(analyze_sentiment_core e BULL BEAR txt = bullish
      \<longleftrightarrow> side_total e BULL BULLISH_GLYPHS txt > side_total e BEAR BEARISH_GLYPHS txt)
   \<and> (analyze_sentiment_core e BULL BEAR txt = bearish
      \<longleftrightarrow> side_total e BEAR BEARISH_GLYPHS txt > side_total e BULL BULLISH_GLYPHS txt)
   \<and> (analyze_sentiment_core e BULL BEAR txt = neutral
      \<longleftrightarrow> side_total e BEAR BEARISH_GLYPHS txt = side_total e BULL BULLISH_GLYPHS txt)"
proof -
  have eq: "{w \<in> set ws. w \<in> S} = set ws \<inter> S" for ws :: "ustr list" and S
    by auto
  define b where "b = side_total e BULL BULLISH_GLYPHS txt"
  define r where "r = side_total e BEAR BEARISH_GLYPHS txt"
  have "analyze_sentiment_core e BULL BEAR txt
      = (if b > r then bullish else if r > b then bearish else neutral)"
    unfolding analyze_sentiment_core_def side_total_def Let_def eq list_ex_iff b_def r_def
    by simp
  then show ?thesis unfolding b_def[symmetric] r_def[symmetric] by auto
qed

lemma two_glyphs_words:
  "findall_words env0 (lower env0 two_glyphs_three_words)
     = [ [240, 255, 353], U [CHR 0xF0, CHR 0xFF], [710], U ''put'', U ''sell'', U ''dump'']"
  by (simp add: two_glyphs_three_words_def text_eval)

lemma glyph_tokens:
  "([240, 255, 353] \<in> U ` S) = False" "([710] \<in> U ` S) = False"
  by (rule not_in_U_image, simp)+

lemma two_glyphs_bull: "filter (contains two_glyphs_three_words) BULLISH_GLYPHS
    = [ [240, 376, 353, 8364], [240, 376, 8220, 710]]"
  by (simp add: two_glyphs_three_words_def BULLISH_GLYPHS_def U_simps)

lemma two_glyphs_bear: "filter (contains two_glyphs_three_words) BEARISH_GLYPHS = []"
  by (simp add: two_glyphs_three_words_def BEARISH_GLYPHS_def U_simps)

lemma touching_words:
  "findall_words env0 (lower env0 glyph_touches_put)
     = [U ''dump'', U ''sell'', [112, 117, 116, 240, 255, 353]]"
  by (simp add: glyph_touches_put_def text_eval)

lemma touching_token: "([112, 117, 116, 240, 255, 353] \<in> U ` S) = False"
  by (rule not_in_U_image) simp

lemma touching_bull: "filter (contains glyph_touches_put) BULLISH_GLYPHS = [ [240, 376, 353, 8364]]"
  by (simp add: glyph_touches_put_def BULLISH_GLYPHS_def U_simps)

lemma touching_bear: "filter (contains glyph_touches_put) BEARISH_GLYPHS = []"
  by (simp add: glyph_touches_put_def BEARISH_GLYPHS_def U_simps)

theorem sentiment_adds_two_once_per_side_witness:
  "analyze_sentiment env0 two_glyphs_three_words = bearish
   \<and> side_total env0 BULLISH_WORDS BULLISH_GLYPHS two_glyphs_three_words = 2
   \<and> side_total env0 BEARISH_WORDS BEARISH_GLYPHS two_glyphs_three_words = 3
   \<and> analyze_sentiment env0 glyph_touches_put = neutral
   \<and> side_total env0 BULLISH_WORDS BULLISH_GLYPHS glyph_touches_put = 2
   \<and> side_total env0 BEARISH_WORDS BEARISH_GLYPHS glyph_touches_put = 2"
proof -
  have b: "side_total env0 BULLISH_WORDS BULLISH_GLYPHS two_glyphs_three_words = 2"
    unfolding side_total_def card_filter_eval two_glyphs_words list_ex_iff filter_nil_iff_ex
      two_glyphs_bull filter.simps glyph_tokens U_image_iff
    by (simp add: BULLISH_WORDS_def)
  have r: "side_total env0 BEARISH_WORDS BEARISH_GLYPHS two_glyphs_three_words = 3"
    unfolding side_total_def card_filter_eval two_glyphs_words list_ex_iff filter_nil_iff_ex
      two_glyphs_bear filter.simps glyph_tokens U_image_iff
    by (simp add: BEARISH_WORDS_def U_eq_iff)
  have b': "side_total env0 BULLISH_WORDS BULLISH_GLYPHS glyph_touches_put = 2"
    unfolding side_total_def card_filter_eval touching_words list_ex_iff filter_nil_iff_ex
      touching_bull filter.simps touching_token U_image_iff
    by (simp add: BULLISH_WORDS_def)
  have r': "side_total env0 BEARISH_WORDS BEARISH_GLYPHS glyph_touches_put = 2"
    unfolding side_total_def card_filter_eval touching_words list_ex_iff filter_nil_iff_ex
      touching_bear filter.simps touching_token U_image_iff
    by (simp add: BEARISH_WORDS_def U_eq_iff)
  show ?thesis
    using sentiment_adds_two_once_per_side[of env0 BULLISH_WORDS BEARISH_WORDS two_glyphs_three_words]
      sentiment_adds_two_once_per_side[of env0 BULLISH_WORDS BEARISH_WORDS glyph_touches_put]
      b r b' r'
    by (simp add: analyze_sentiment_def)
qed

text \<open>
  With two positive glyphs and three bearish words the code answers bearish (2 against 3),
  where adding 2 for each glyph gives bullish (4 against 3): claim C7 as stated fails here.
\<close>

theorem sentiment_glyphs_counted_once:
  "analyze_sentiment env0 two_glyphs_three_words = bearish
   \<and> sentiment_per_glyph env0 BULLISH_WORDS BEARISH_WORDS two_glyphs_three_words = bullish"
proof -
  have "analyze_sentiment env0 two_glyphs_three_words = bearish"
    unfolding analyze_sentiment_def analyze_sentiment_core_def Let_def card_inter_eval
      two_glyphs_words filter_nil_iff_ex two_glyphs_bull two_glyphs_bear filter.simps glyph_tokens U_image_iff
    by (simp add: BULLISH_WORDS_def BEARISH_WORDS_def U_eq_iff)
  moreover have "sentiment_per_glyph env0 BULLISH_WORDS BEARISH_WORDS two_glyphs_three_words = bullish"
    unfolding sentiment_per_glyph_def Let_def card_inter_eval two_glyphs_words
      two_glyphs_bull two_glyphs_bear filter.simps glyph_tokens U_image_iff
    by (simp add: BULLISH_WORDS_def BEARISH_WORDS_def U_eq_iff)
  ultimately show ?thesis by simp
qed

lemma company_lookup_value:
  "company_lookup e names tu = Some t \<Longrightarrow> \<exists>(n, v) \<in> set names. t = U v"
  by (induction names) (auto split: if_splits)

lemma find_SomeD: "find P xs = Some x \<Longrightarrow> P x"
  by (induction xs) (auto split: if_splits)

lemma free_text_core_avoids:
  assumes names: "\<forall>(n, v) \<in> set COMPANY_NAMES. v \<notin> D" and w: "w \<in> U ` D"
  shows "free_text_core e I K A D C tu txt disc \<noteq> Some w"
proof
  assume r: "free_text_core e I K A D C tu txt disc = Some w"
  show False
  proof (cases "company_lookup e COMPANY_NAMES tu")
    case (Some t)
    then have "t = w" using r by (simp add: free_text_core_def)
    moreover obtain n v where "(n, v) \<in> set COMPANY_NAMES" "t = U v"
      using company_lookup_value[OF Some] by auto
    ultimately show False using names w by (auto simp: U_eq_iff)
  next
    case None
    then obtain P where "find (\<lambda>x. \<not> (x \<in> U ` I \<or> x \<in> U ` D) \<and> P x) (findall_tickers e tu) = Some w"
      using r by (auto simp: free_text_core_def Let_def split: option.splits if_splits)
    then have "\<not> (w \<in> U ` I \<or> w \<in> U ` D) \<and> P w" by (rule find_SomeD)
    then show False using w by simp
  qed
qed

lemma company_tickers_not_dollar_only:
  "\<forall>(n, v) \<in> set COMPANY_NAMES. v \<notin> DOLLAR_ONLY_TICKERS"
  "\<forall>(n, v) \<in> set COMPANY_NAMES. v \<notin> DOLLAR_ONLY_TICKERS_v2"
  by (simp_all add: COMPANY_NAMES_def DOLLAR_ONLY_TICKERS_def DOLLAR_ONLY_TICKERS_v2_def)

lemma extract_ticker_core_cases:
  "fst (extract_ticker_core e I K A D C txt disc) = Some w \<Longrightarrow>
     dollar_match e (upper e txt) = Some w \<or> free_text_core e I K A D C (upper e txt) txt disc = Some w"
  by (auto simp: extract_ticker_core_def Let_def split: option.splits if_splits)

text \<open>
  Claim C8.  In both files, for a word of \<open>DOLLAR_ONLY_TICKERS\<close>, whatever the text and the
  set of discovered tickers: rules 2 to 4 (company names, known tickers, ambiguous tickers
  with context) never return it, and when \<open>extract_ticker\<close> returns it, it is the token that
  the \<open>$\<close> rule matched.
\<close>

theorem dollar_only_word_needs_dollar:
  "(w \<in> U ` DOLLAR_ONLY_TICKERS \<longrightarrow>
      free_text_core e IGNORE_WORDS KNOWN_TICKERS AMBIGUOUS_TICKERS DOLLAR_ONLY_TICKERS
        STOCK_CONTEXT_WORDS (upper e txt) txt disc \<noteq> Some w
      \<and> (fst (extract_ticker e txt disc) = Some w \<longrightarrow> dollar_match e (upper e txt) = Some w))
   \<and> (w \<in> U ` DOLLAR_ONLY_TICKERS_v2 \<longrightarrow>
      free_text_core e IGNORE_WORDS_v2 KNOWN_TICKERS_v2 AMBIGUOUS_TICKERS_v2 DOLLAR_ONLY_TICKERS_v2
        STOCK_CONTEXT_WORDS_v2 (upper e txt) txt disc \<noteq> Some w
      \<and> (fst (extract_ticker_v2 e txt disc) = Some w \<longrightarrow> dollar_match e (upper e txt) = Some w))"
proof (intro conjI impI)
  assume w: "w \<in> U ` DOLLAR_ONLY_TICKERS"
  show f: "free_text_core e IGNORE_WORDS KNOWN_TICKERS AMBIGUOUS_TICKERS DOLLAR_ONLY_TICKERS
        STOCK_CONTEXT_WORDS (upper e txt) txt disc \<noteq> Some w"
    by (rule free_text_core_avoids[OF company_tickers_not_dollar_only(1) w])
  assume "fst (extract_ticker e txt disc) = Some w"
  then show "dollar_match e (upper e txt) = Some w"
    unfolding extract_ticker_def using extract_ticker_core_cases f by blast
next
  assume w: "w \<in> U ` DOLLAR_ONLY_TICKERS_v2"
  show f: "free_text_core e IGNORE_WORDS_v2 KNOWN_TICKERS_v2 AMBIGUOUS_TICKERS_v2 DOLLAR_ONLY_TICKERS_v2
        STOCK_CONTEXT_WORDS_v2 (upper e txt) txt disc \<noteq> Some w"
    by (rule free_text_core_avoids[OF company_tickers_not_dollar_only(2) w])
  assume "fst (extract_ticker_v2 e txt disc) = Some w"
  then show "dollar_match e (upper e txt) = Some w"
    unfolding extract_ticker_v2_def using extract_ticker_core_cases f by blast
qed

lemma go_calls_no_dollar: "dollar_match env0 (upper env0 (U ''buy GO calls'')) = None"
  by (simp add: text_eval)

theorem dollar_only_word_needs_dollar_witness:
  "U ''GO'' \<in> U ` DOLLAR_ONLY_TICKERS
   \<and> fst (extract_ticker env0 (U ''buy GO calls'') {U ''GO''}) \<noteq> Some (U ''GO'')"
proof -
  have m: "U ''GO'' \<in> U ` DOLLAR_ONLY_TICKERS"
    unfolding U_image_iff by (simp add: DOLLAR_ONLY_TICKERS_def)
  have "fst (extract_ticker env0 (U ''buy GO calls'') {U ''GO''}) = Some (U ''GO'')
      \<longrightarrow> dollar_match env0 (upper env0 (U ''buy GO calls'')) = Some (U ''GO'')"
    using m dollar_only_word_needs_dollar[of "U ''GO''" env0 "U ''buy GO calls''" "{U ''GO''}"]
    by blast
  then have "fst (extract_ticker env0 (U ''buy GO calls'') {U ''GO''}) \<noteq> Some (U ''GO'')"
    unfolding go_calls_no_dollar by simp
  with m show ?thesis by simp
qed

lemma is_AZ_word: "is_AZ c \<Longrightarrow> is_word e c"
  by (auto simp: is_word_def is_AZ_def)

lemma dollar_at_Suc: "dollar_at e (c # cs) (Suc i) k = dollar_at e cs i k"
  by (simp add: dollar_at_def)

lemma boundary_case:
  "(case drop k cs of [] \<Rightarrow> True | d # x \<Rightarrow> \<not> is_word e d)
     = (k < length cs \<longrightarrow> \<not> is_word e (cs ! k))"
proof (cases "k < length cs")
  case True
  then have "drop k cs = cs ! k # drop (Suc k) cs" by (simp add: Cons_nth_drop_Suc)
  then show ?thesis using True by simp
next
  case False
  then show ?thesis by simp
qed

lemma dollar_at_0:
  "dollar_at e (c # cs) 0 k \<longleftrightarrow>
     c = 36 \<and> k = length (takeWhile is_AZ cs) \<and> 1 \<le> k \<and> k \<le> 5
     \<and> (case dropWhile is_AZ cs of [] \<Rightarrow> True | d # x \<Rightarrow> \<not> is_word e d)"
proof
  assume a: "dollar_at e (c # cs) 0 k"
  then have k: "k \<le> length cs" and az: "\<And>j. j < k \<Longrightarrow> is_AZ (cs ! j)"
    and b: "k < length cs \<Longrightarrow> \<not> is_word e (cs ! k)"
    by (auto simp: dollar_at_def)
  have "k < length cs \<Longrightarrow> \<not> is_AZ (cs ! k)" using b is_AZ_word by blast
  then have "takeWhile is_AZ cs = take k cs"
    using az by (intro takeWhile_eq_take_P_nth) auto
  then have len: "length (takeWhile is_AZ cs) = k" using k by simp
  then have "dropWhile is_AZ cs = drop k cs" by (simp add: dropWhile_eq_drop)
  then show "c = 36 \<and> k = length (takeWhile is_AZ cs) \<and> 1 \<le> k \<and> k \<le> 5
     \<and> (case dropWhile is_AZ cs of [] \<Rightarrow> True | d # x \<Rightarrow> \<not> is_word e d)"
    using a len b by (simp add: dollar_at_def boundary_case)
next
  assume a: "c = 36 \<and> k = length (takeWhile is_AZ cs) \<and> 1 \<le> k \<and> k \<le> 5
     \<and> (case dropWhile is_AZ cs of [] \<Rightarrow> True | d # x \<Rightarrow> \<not> is_word e d)"
  then have k: "k = length (takeWhile is_AZ cs)" by simp
  have le: "k \<le> length cs" unfolding k by (rule length_takeWhile_le)
  have az: "is_AZ (cs ! j)" if "j < k" for j
  proof -
    have "takeWhile is_AZ cs ! j \<in> set (takeWhile is_AZ cs)" using that k by simp
    then have "is_AZ (takeWhile is_AZ cs ! j)" by (rule set_takeWhileD[THEN conjunct2])
    then show ?thesis using that k by (simp add: takeWhile_nth)
  qed
  have "dropWhile is_AZ cs = drop k cs" unfolding k by (rule dropWhile_eq_drop)
  then have "k < length cs \<longrightarrow> \<not> is_word e (cs ! k)"
    using a by (simp add: boundary_case)
  then show "dollar_at e (c # cs) 0 k"
    using a le az by (auto simp: dollar_at_def)
qed

lemma dollar_match_Cons:
  "dollar_match e (c # cs) =
     (if \<exists>k. dollar_at e (c # cs) 0 k then Some (takeWhile is_AZ cs) else dollar_match e cs)"
  by (simp add: dollar_at_0)

lemma dollar_match_None: "dollar_match e s = None \<longleftrightarrow> (\<forall>i k. \<not> dollar_at e s i k)"
proof (induction s)
  case Nil
  then show ?case by (simp add: dollar_at_def)
next
  case (Cons c cs)
  show ?case
  proof (cases "\<exists>k. dollar_at e (c # cs) 0 k")
    case True
    moreover have "dollar_match e (c # cs) = Some (takeWhile is_AZ cs)"
      using True by (simp only: dollar_match_Cons if_True)
    ultimately show ?thesis by auto
  next
    case False
    have "(\<forall>i k. \<not> dollar_at e (c # cs) i k) \<longleftrightarrow> (\<forall>i k. \<not> dollar_at e cs i k)"
    proof
      assume "\<forall>i k. \<not> dollar_at e (c # cs) i k"
      then show "\<forall>i k. \<not> dollar_at e cs i k" using dollar_at_Suc by blast
    next
      assume n: "\<forall>i k. \<not> dollar_at e cs i k"
      show "\<forall>i k. \<not> dollar_at e (c # cs) i k"
      proof (intro allI)
        fix i k show "\<not> dollar_at e (c # cs) i k"
          using False n dollar_at_Suc by (cases i) auto
      qed
    qed
    moreover have "dollar_match e (c # cs) = dollar_match e cs"
      using False by (simp only: dollar_match_Cons if_False)
    ultimately show ?thesis using Cons.IH by simp
  qed
qed

lemma dollar_match_Some:
  "dollar_match e s = Some tok \<longleftrightarrow>
     (\<exists>i k. dollar_at e s i k \<and> (\<forall>i' k'. i' < i \<longrightarrow> \<not> dollar_at e s i' k')
            \<and> tok = take k (drop (Suc i) s))"
proof (induction s)
  case Nil
  then show ?case by (simp add: dollar_at_def)
next
  case (Cons c cs)
  show ?case
  proof (cases "\<exists>k. dollar_at e (c # cs) 0 k")
    case True
    then obtain k0 where k0: "dollar_at e (c # cs) 0 k0" by blast
    then have len: "k0 = length (takeWhile is_AZ cs)" by (simp add: dollar_at_0)
    have tk: "take k0 cs = takeWhile is_AZ cs" unfolding len by (rule takeWhile_eq_take[symmetric])
    have "(\<exists>i k. dollar_at e (c # cs) i k \<and> (\<forall>i' k'. i' < i \<longrightarrow> \<not> dollar_at e (c # cs) i' k')
            \<and> tok = take k (drop (Suc i) (c # cs))) \<longleftrightarrow> tok = takeWhile is_AZ cs"
    proof
      assume "\<exists>i k. dollar_at e (c # cs) i k \<and> (\<forall>i' k'. i' < i \<longrightarrow> \<not> dollar_at e (c # cs) i' k')
            \<and> tok = take k (drop (Suc i) (c # cs))"
      then obtain i k where ik: "dollar_at e (c # cs) i k"
          "\<forall>i' k'. i' < i \<longrightarrow> \<not> dollar_at e (c # cs) i' k'" "tok = take k (drop (Suc i) (c # cs))"
        by blast
      have "i = 0" using ik(2) k0 by (cases i) auto
      then have "k = length (takeWhile is_AZ cs)" using ik(1) by (simp add: dollar_at_0)
      then show "tok = takeWhile is_AZ cs" using ik(3) \<open>i = 0\<close> len tk by simp
    next
      assume "tok = takeWhile is_AZ cs"
      then have "dollar_at e (c # cs) 0 k0 \<and> (\<forall>i' k'. i' < (0::nat) \<longrightarrow> \<not> dollar_at e (c # cs) i' k')
            \<and> tok = take k0 (drop (Suc 0) (c # cs))"
        using k0 tk by simp
      then show "\<exists>i k. dollar_at e (c # cs) i k \<and> (\<forall>i' k'. i' < i \<longrightarrow> \<not> dollar_at e (c # cs) i' k')
            \<and> tok = take k (drop (Suc i) (c # cs))"
        by blast
    qed
    moreover have "dollar_match e (c # cs) = Some (takeWhile is_AZ cs)"
      using True by (simp only: dollar_match_Cons if_True)
    ultimately show ?thesis by auto
  next
    case False
    have "(\<exists>i k. dollar_at e (c # cs) i k \<and> (\<forall>i' k'. i' < i \<longrightarrow> \<not> dollar_at e (c # cs) i' k')
            \<and> tok = take k (drop (Suc i) (c # cs)))
       \<longleftrightarrow> (\<exists>i k. dollar_at e cs i k \<and> (\<forall>i' k'. i' < i \<longrightarrow> \<not> dollar_at e cs i' k')
            \<and> tok = take k (drop (Suc i) cs))"
    proof
      assume "\<exists>i k. dollar_at e (c # cs) i k \<and> (\<forall>i' k'. i' < i \<longrightarrow> \<not> dollar_at e (c # cs) i' k')
            \<and> tok = take k (drop (Suc i) (c # cs))"
      then obtain i k where ik: "dollar_at e (c # cs) i k"
          "\<forall>i' k'. i' < i \<longrightarrow> \<not> dollar_at e (c # cs) i' k'" "tok = take k (drop (Suc i) (c # cs))"
        by blast
      obtain i0 where i0: "i = Suc i0" using ik(1) False by (cases i) auto
      have "dollar_at e cs i0 k" using ik(1) i0 dollar_at_Suc by simp
      moreover have "\<forall>i' k'. i' < i0 \<longrightarrow> \<not> dollar_at e cs i' k'"
        using ik(2) i0 dollar_at_Suc by (metis Suc_mono)
      moreover have "tok = take k (drop (Suc i0) cs)" using ik(3) i0 by simp
      ultimately show "\<exists>i k. dollar_at e cs i k \<and> (\<forall>i' k'. i' < i \<longrightarrow> \<not> dollar_at e cs i' k')
            \<and> tok = take k (drop (Suc i) cs)" by blast
    next
      assume "\<exists>i k. dollar_at e cs i k \<and> (\<forall>i' k'. i' < i \<longrightarrow> \<not> dollar_at e cs i' k')
            \<and> tok = take k (drop (Suc i) cs)"
      then obtain i k where ik: "dollar_at e cs i k"
          "\<forall>i' k'. i' < i \<longrightarrow> \<not> dollar_at e cs i' k'" "tok = take k (drop (Suc i) cs)"
        by blast
      have "dollar_at e (c # cs) (Suc i) k" using ik(1) by (simp add: dollar_at_Suc)
      moreover have "\<not> dollar_at e (c # cs) i' k'" if "i' < Suc i" for i' k'
        using that False ik(2) dollar_at_Suc by (cases i') auto
      moreover have "tok = take k (drop (Suc (Suc i)) (c # cs))" using ik(3) by simp
      ultimately show "\<exists>i k. dollar_at e (c # cs) i k \<and> (\<forall>i' k'. i' < i \<longrightarrow> \<not> dollar_at e (c # cs) i' k')
            \<and> tok = take k (drop (Suc i) (c # cs))" by blast
    qed
    moreover have "dollar_match e (c # cs) = dollar_match e cs"
      using False by (simp only: dollar_match_Cons if_False)
    ultimately show ?thesis using Cons.IH by simp
  qed
qed

text \<open>
  Claim C10.  The \<open>$\<close> rule of \<open>extract_ticker\<close> (the same code in both files, here with any
  tables) looks at the leftmost match of the \<open>$\<close> expression only.  When that token is in the
  ignore set, extraction continues with rules 2 to 4 and leaves the discovered set alone,
  whatever \<open>$\<close> tokens follow; when it is not, the token is returned and added to the
  discovered set, whether or not it is a dollar-only or an ambiguous word.  The token is the
  group of the match at the least position where the expression matches, and there is none
  exactly when the expression matches nowhere.
\<close>

theorem dollar_rule_uses_leftmost_token:
  "(dollar_match e (upper e txt) = Some t \<and> t \<in> U ` IGNORE \<longrightarrow>
      extract_ticker_core e IGNORE KNOWN AMBIGUOUS DOLLAR_ONLY CONTEXT txt disc
        = (free_text_core e IGNORE KNOWN AMBIGUOUS DOLLAR_ONLY CONTEXT (upper e txt) txt disc, disc))
   \<and> (dollar_match e (upper e txt) = Some t \<and> t \<notin> U ` IGNORE \<longrightarrow>
      extract_ticker_core e IGNORE KNOWN AMBIGUOUS DOLLAR_ONLY CONTEXT txt disc
        = (Some t, insert t disc))
   \<and> (dollar_match e s = Some tok \<longleftrightarrow>
        (\<exists>i k. dollar_at e s i k \<and> (\<forall>i' k'. i' < i \<longrightarrow> \<not> dollar_at e s i' k')
               \<and> tok = take k (drop (Suc i) s)))
   \<and> (dollar_match e s = None \<longleftrightarrow> (\<forall>i k. \<not> dollar_at e s i k))"
proof -
  have "dollar_match e (upper e txt) = Some t \<and> t \<in> U ` IGNORE \<longrightarrow>
      extract_ticker_core e IGNORE KNOWN AMBIGUOUS DOLLAR_ONLY CONTEXT txt disc
        = (free_text_core e IGNORE KNOWN AMBIGUOUS DOLLAR_ONLY CONTEXT (upper e txt) txt disc, disc)"
    by (simp add: extract_ticker_core_def Let_def)
  moreover have "dollar_match e (upper e txt) = Some t \<and> t \<notin> U ` IGNORE \<longrightarrow>
      extract_ticker_core e IGNORE KNOWN AMBIGUOUS DOLLAR_ONLY CONTEXT txt disc
        = (Some t, insert t disc)"
    by (simp add: extract_ticker_core_def Let_def)
  ultimately show ?thesis using dollar_match_Some[of e s tok] dollar_match_None[of e s] by blast
qed

lemma the_zzzz_dollar: "dollar_match env0 (upper env0 (U ''$THE $ZZZZ'')) = Some (U ''THE'')"
  by (simp add: text_eval)

lemma the_zzzz_company: "company_lookup env0 COMPANY_NAMES (upper env0 (U ''$THE $ZZZZ'')) = None"
  by (simp add: COMPANY_NAMES_def text_eval)

lemma the_zzzz_tickers: "findall_tickers env0 (upper env0 (U ''$THE $ZZZZ'')) = [U ''THE'', U ''ZZZZ'']"
  by (simp add: text_eval)

lemma the_zzzz_words: "findall_words env0 (lower env0 (U ''$THE $ZZZZ'')) = [U ''the'', U ''zzzz'']"
  by (simp add: text_eval)

lemma the_zzzz_free_text:
  "free_text_core env0 IGNORE_WORDS_v2 KNOWN_TICKERS_v2 AMBIGUOUS_TICKERS_v2 DOLLAR_ONLY_TICKERS_v2
     STOCK_CONTEXT_WORDS_v2 (upper env0 (U ''$THE $ZZZZ'')) (U ''$THE $ZZZZ'') {} = None"
  unfolding free_text_core_def has_stock_context_core_def Let_def the_zzzz_company
    the_zzzz_tickers the_zzzz_words option.case find.simps list.set Un_iff bex_simps
    insert_iff U_image_iff
  by (simp add: IGNORE_WORDS_v2_def KNOWN_TICKERS_v2_def STOCK_CONTEXT_WORDS_v2_def
      DOLLAR_ONLY_TICKERS_v2_def AMBIGUOUS_TICKERS_v2_def)

lemma made_500_dollar: "dollar_match env0 (upper env0 (U ''made $500 on $zzzz'')) = Some (U ''ZZZZ'')"
  by (simp add: text_eval)

lemma tsla_glyph_dollar:
  "dollar_match env0 (upper env0 (U ''$TSLA'' @ [240, 376, 353, 8364])) = None"
  by (simp add: text_eval)

lemma go_up_dollar: "dollar_match env0 (upper env0 (U ''$go up'')) = Some (U ''GO'')"
  by (simp add: text_eval)

theorem dollar_rule_uses_leftmost_token_witness:
  "dollar_match env0 (upper env0 (U ''$THE $ZZZZ'')) = Some (U ''THE'')
   \<and> U ''THE'' \<in> U ` IGNORE_WORDS_v2
   \<and> extract_ticker_v2 env0 (U ''$THE $ZZZZ'') {} = (None, {})
   \<and> extract_ticker_v2 env0 (U ''made $500 on $zzzz'') {} = (Some (U ''ZZZZ''), {U ''ZZZZ''})
   \<and> U ''GO'' \<in> U ` DOLLAR_ONLY_TICKERS_v2
   \<and> extract_ticker_v2 env0 (U ''$go up'') {} = (Some (U ''GO''), {U ''GO''})
   \<and> (\<forall>i k. \<not> dollar_at env0 (upper env0 (U ''$TSLA'' @ [240, 376, 353, 8364])) i k)"
proof -
  note main = dollar_rule_uses_leftmost_token[where e = env0 and IGNORE = IGNORE_WORDS_v2
      and KNOWN = KNOWN_TICKERS_v2 and AMBIGUOUS = AMBIGUOUS_TICKERS_v2
      and DOLLAR_ONLY = DOLLAR_ONLY_TICKERS_v2 and CONTEXT = STOCK_CONTEXT_WORDS_v2
      and disc = "{}"]
  note at = main[of "U ''$THE $ZZZZ''" "U ''THE''"]
    and bt = main[of "U ''made $500 on $zzzz''" "U ''ZZZZ''"]
    and ct = main[of "U ''$go up''" "U ''GO''"]
    and gt = main[of _ _ "upper env0 (U ''$TSLA'' @ [240, 376, 353, 8364])"]
  have i: "U ''THE'' \<in> U ` IGNORE_WORDS_v2"
    unfolding U_image_iff by (simp add: IGNORE_WORDS_v2_def)
  have d: "U ''GO'' \<in> U ` DOLLAR_ONLY_TICKERS_v2"
    unfolding U_image_iff by (simp add: DOLLAR_ONLY_TICKERS_v2_def)
  have n: "U ''GO'' \<notin> U ` IGNORE_WORDS_v2"
    unfolding U_image_iff by (simp add: IGNORE_WORDS_v2_def)
  have z: "U ''ZZZZ'' \<notin> U ` IGNORE_WORDS_v2"
    unfolding U_image_iff by (simp add: IGNORE_WORDS_v2_def)
  have a: "extract_ticker_v2 env0 (U ''$THE $ZZZZ'') {} = (None, {})"
    using at the_zzzz_dollar i
    unfolding extract_ticker_v2_def the_zzzz_free_text by blast
  have b: "extract_ticker_v2 env0 (U ''made $500 on $zzzz'') {} = (Some (U ''ZZZZ''), {U ''ZZZZ''})"
    using bt made_500_dollar z
    unfolding extract_ticker_v2_def by blast
  have c: "extract_ticker_v2 env0 (U ''$go up'') {} = (Some (U ''GO''), {U ''GO''})"
    using ct go_up_dollar n
    unfolding extract_ticker_v2_def by blast
  have g: "\<forall>i k. \<not> dollar_at env0 (upper env0 (U ''$TSLA'' @ [240, 376, 353, 8364])) i k"
    using gt tsla_glyph_dollar
    by blast
  from a b c g i d the_zzzz_dollar show ?thesis by simp
qed

lemma process_message_topic:
  "p_topic (fst (process_message e now chat g))
     = fst (extract_ticker e (convert_emoji_codes e (c_message chat)) (snd g))"
  "p_topic (fst (process_message_v2 e now chat vs))
     = fst (extract_ticker_v2 e (convert_emoji_codes e (c_message chat)) (session_discovered vs))"
  by (simp_all add: process_message_def process_message_v2_def Let_def)

text \<open>
  Claim C2.  In both files a processed message without a topic has sentiment \<open>neutral\<close>, and
  \<open>analyze_sentiment\<close> is among the calls of \<open>process_message\<close> only when a topic was
  extracted.
\<close>

theorem no_topic_means_neutral:
  "(p_topic (fst (process_message e now chat g)) = None
      \<longrightarrow> p_sentiment (fst (process_message e now chat g)) = neutral)
   \<and> (Called_analyze_sentiment \<in> set (snd (snd (process_message e now chat g)))
      \<longrightarrow> p_topic (fst (process_message e now chat g)) \<noteq> None)
   \<and> (p_topic (fst (process_message_v2 e now chat vs)) = None
      \<longrightarrow> p_sentiment (fst (process_message_v2 e now chat vs)) = neutral)
   \<and> (Called_analyze_sentiment \<in> set (snd (snd (process_message_v2 e now chat vs)))
      \<longrightarrow> p_topic (fst (process_message_v2 e now chat vs)) \<noteq> None)"
  by (auto simp: process_message_def process_message_v2_def Let_def truthy_def
      split: option.splits)

lemma dip_dollar: "dollar_match env0 (upper env0 (U ''buy the dip'')) = None"
  by (simp add: text_eval)

lemma dip_company: "company_lookup env0 COMPANY_NAMES (upper env0 (U ''buy the dip'')) = None"
  by (simp add: COMPANY_NAMES_def text_eval)

lemma dip_tickers: "findall_tickers env0 (upper env0 (U ''buy the dip'')) = [U ''BUY'', U ''THE'', U ''DIP'']"
  by (simp add: text_eval)

lemma dip_words: "findall_words env0 (lower env0 (U ''buy the dip'')) = [U ''buy'', U ''the'', U ''dip'']"
  by (simp add: text_eval)

lemma dip_no_topic: "fst (extract_ticker_v2 env0 (U ''buy the dip'') {}) = None"
  unfolding extract_ticker_v2_def extract_ticker_core_def free_text_core_def
    has_stock_context_core_def Let_def dip_dollar dip_company dip_tickers dip_words
    option.case find.simps list.set Un_iff bex_simps insert_iff U_image_iff
  by (simp add: IGNORE_WORDS_v2_def KNOWN_TICKERS_v2_def STOCK_CONTEXT_WORDS_v2_def
      DOLLAR_ONLY_TICKERS_v2_def AMBIGUOUS_TICKERS_v2_def)

lemma dip_is_bullish: "analyze_sentiment_v2 env0 (U ''buy the dip'') = bullish"
proof -
  have "filter (contains (U ''buy the dip'')) BULLISH_GLYPHS = []"
    "filter (contains (U ''buy the dip'')) BEARISH_GLYPHS = []"
    by (simp_all add: BULLISH_GLYPHS_def BEARISH_GLYPHS_def U_simps)
  then show ?thesis
    unfolding analyze_sentiment_v2_def analyze_sentiment_core_def Let_def card_inter_eval
      dip_words filter_nil_iff_ex filter.simps U_image_iff
    by (simp add: BULLISH_WORDS_v2_def BEARISH_WORDS_v2_def U_eq_iff)
qed

theorem no_topic_means_neutral_witness:
  "p_topic (fst (process_message_v2 env0 0 bob_buys_the_dip fresh_state)) = None
   \<and> p_sentiment (fst (process_message_v2 env0 0 bob_buys_the_dip fresh_state)) = neutral
   \<and> analyze_sentiment_v2 env0 (p_text (fst (process_message_v2 env0 0 bob_buys_the_dip fresh_state)))
       = bullish
   \<and> Called_analyze_sentiment
       \<notin> set (snd (snd (process_message_v2 env0 0 bob_buys_the_dip fresh_state)))"
proof -
  have t: "p_topic (fst (process_message_v2 env0 0 bob_buys_the_dip fresh_state)) = None"
    unfolding process_message_topic
    by (simp add: env0_convert bob_buys_the_dip_def fresh_state_def dip_no_topic)
  have x: "p_text (fst (process_message_v2 env0 0 bob_buys_the_dip fresh_state)) = U ''buy the dip''"
    by (simp add: process_message_v2_def Let_def env0_convert bob_buys_the_dip_def)
  show ?thesis
    using no_topic_means_neutral[of env0 0 bob_buys_the_dip "(Map.empty, {})" fresh_state] t
    unfolding x dip_is_bullish by blast
qed

section \<open>Properties of the vibe pass\<close>

lemma last_n_eq_Nil: "last_n n xs = [] \<longleftrightarrow> xs = [] \<or> n = 0"
  by (cases xs) (auto simp: last_n_def)

lemma vibe_pass_generic:
  "fst (vibe_pass i k e t (batch, last_check))
     = (if i \<le> t - last_check \<and> batch \<noteq> [] then map p_text (take k (last_n 20 batch)) else [])"
  "snd (snd (snd (vibe_pass i k e t (batch, last_check))))
     = (if i \<le> t - last_check \<and> batch \<noteq> [] then t else last_check)"
  "fst (snd (snd (vibe_pass i k e t (batch, last_check))))
     = (if i \<le> t - last_check \<and> batch \<noteq> [] then [] else batch)"
  by (auto simp: vibe_pass_def classify_vibe_batch_def Let_def last_n_eq_Nil)

lemma classify_vibe_batch_tail:
  "drop k (snd (classify_vibe_batch k e ms)) = drop k ms"
  "take k (snd (classify_vibe_batch k e ms))
     = map (\<lambda>m. case classify_vibe_single e (p_text m) of Some v \<Rightarrow> m\<lparr>p_vibe := Some v\<rparr> | None \<Rightarrow> m)
         (take k ms)"
  by (simp_all add: classify_vibe_batch_def min_def)

text \<open>
  Claim C6, as the code has it.  A vibe pass runs only when the configured interval has passed
  since the last one that ran (30 seconds in the second file, 3 in the first) and the batch is
  not empty; it then sets the time of the last check to now and empties the batch, so two
  passes that run are at least one interval apart.  A pass that runs sends to the completion
  service exactly the texts of the first K messages of the last 20 of the pending batch (K is
  \<open>VIBE_BATCH_SIZE\<close> = 3 in the second file and 10 in the first); \<open>classify_vibe_batch\<close>
  returns every message after its first K unchanged.
\<close>

theorem vibe_pass_queries_first_k_of_last_20:
  "fst (vibe_pass_v2 e t (batch, last_check))
     = (if VIBE_CHECK_INTERVAL \<le> t - last_check \<and> batch \<noteq> []
        then map p_text (take VIBE_BATCH_SIZE (last_n 20 batch)) else [])
   \<and> snd (snd (snd (vibe_pass_v2 e t (batch, last_check))))
     = (if VIBE_CHECK_INTERVAL \<le> t - last_check \<and> batch \<noteq> [] then t else last_check)
   \<and> fst (vibe_pass_v1 e t (batch, last_check))
     = (if 3 \<le> t - last_check \<and> batch \<noteq> [] then map p_text (take 10 (last_n 20 batch)) else [])
   \<and> snd (snd (snd (vibe_pass_v1 e t (batch, last_check))))
     = (if 3 \<le> t - last_check \<and> batch \<noteq> [] then t else last_check)
   \<and> drop k (snd (classify_vibe_batch k e ms)) = drop k ms"
  unfolding vibe_pass_v2_def vibe_pass_v1_def vibe_pass_generic classify_vibe_batch_tail
  by simp

lemma batch5_pass:
  "vibe_pass_v2 env_funny 30 (batch5, 0)
     = ([U ''m1'', U ''m2'', U ''m3''],
        [(plain_msg (U ''m1''))\<lparr>p_vibe := Some funny\<rparr>,
         (plain_msg (U ''m2''))\<lparr>p_vibe := Some funny\<rparr>,
         (plain_msg (U ''m3''))\<lparr>p_vibe := Some funny\<rparr>], [], 30)"
  by (simp add: vibe_pass_v2_def vibe_pass_def classify_vibe_batch_def Let_def last_n_def
      batch5_def env_funny_def VIBE_CHECK_INTERVAL_def VIBE_BATCH_SIZE_def plain_msg_def)

theorem vibe_pass_queries_first_k_of_last_20_witness:
  "VIBE_CHECK_INTERVAL \<le> 30 - 0 \<and> batch5 \<noteq> []
   \<and> fst (vibe_pass_v2 env_funny 30 (batch5, 0)) = [U ''m1'', U ''m2'', U ''m3'']
   \<and> snd (snd (snd (vibe_pass_v2 env_funny 30 (batch5, 0)))) = 30"
proof -
  have h: "VIBE_CHECK_INTERVAL \<le> 30 - 0 \<and> batch5 \<noteq> []"
    by (simp add: VIBE_CHECK_INTERVAL_def batch5_def)
  have "map p_text (take VIBE_BATCH_SIZE (last_n 20 batch5)) = [U ''m1'', U ''m2'', U ''m3'']"
    by (simp add: VIBE_BATCH_SIZE_def last_n_def batch5_def plain_msg_def)
  then show ?thesis
    using h vibe_pass_queries_first_k_of_last_20[of env_funny 30 batch5 0] by simp
qed

text \<open>
  With five pending messages the pass of the second file queries the three oldest, \<open>m1\<close> to
  \<open>m3\<close>, and those are the ones that get a vibe; the three most recent are \<open>m3\<close> to \<open>m5\<close>, and
  \<open>m4\<close> and \<open>m5\<close> are never sent.  Claim C6 as stated fails here.
\<close>

theorem vibe_pass_queries_oldest_not_most_recent:
  "fst (vibe_pass_v2 env_funny 30 (batch5, 0)) = [U ''m1'', U ''m2'', U ''m3'']
   \<and> map p_text (last_n VIBE_BATCH_SIZE batch5) = [U ''m3'', U ''m4'', U ''m5'']
   \<and> fst (vibe_pass_v2 env_funny 30 (batch5, 0)) \<noteq> map p_text (last_n VIBE_BATCH_SIZE batch5)
   \<and> map p_text (fst (snd (vibe_pass_v2 env_funny 30 (batch5, 0)))) = [U ''m1'', U ''m2'', U ''m3'']"
proof -
  have a: "map p_text (last_n VIBE_BATCH_SIZE batch5) = [U ''m3'', U ''m4'', U ''m5'']"
    by (simp add: VIBE_BATCH_SIZE_def last_n_def batch5_def plain_msg_def)
  have b: "U ''m1'' \<noteq> U ''m3''" unfolding U_eq_iff by simp
  show ?thesis unfolding a batch5_pass using b by (simp add: plain_msg_def)
qed

section \<open>Properties of the session registry\<close>

lemma broadcast_fields [simp]:
  "video_state_map (broadcast_to_video v ev st) = video_state_map st"
  "active_scrapers (broadcast_to_video v ev st) = active_scrapers st"
  "video_clients (broadcast_to_video v ev st) = video_clients st"
  "client_video_id (broadcast_to_video v ev st) = client_video_id st"
  "created_tasks (broadcast_to_video v ev st) = created_tasks st"
  by (simp_all add: broadcast_to_video_def split: option.splits)

lemma broadcasts_fields [simp]:
  "video_state_map (foldl (\<lambda>s x. broadcast_to_video v (f x) s) st xs) = video_state_map st"
  "active_scrapers (foldl (\<lambda>s x. broadcast_to_video v (f x) s) st xs) = active_scrapers st"
  "video_clients (foldl (\<lambda>s x. broadcast_to_video v (f x) s) st xs) = video_clients st"
  "client_video_id (foldl (\<lambda>s x. broadcast_to_video v (f x) s) st xs) = client_video_id st"
  "created_tasks (foldl (\<lambda>s x. broadcast_to_video v (f x) s) st xs) = created_tasks st"
  by (induction xs arbitrary: st) simp_all

lemma subscribe_fields:
  "video_state_map (subscribe ws v st) = video_state_map st"
  "v \<noteq> [] \<Longrightarrow> client_video_id (subscribe ws v st) ws = Some v"
  "v \<noteq> [] \<Longrightarrow> \<exists>cs. video_clients (subscribe ws v st) v = Some cs \<and> ws \<in> cs"
  by (auto simp: subscribe_def Let_def split: option.splits)

lemma subscribe_spawns:
  "v \<noteq> [] \<Longrightarrow> active_scrapers st v = None \<Longrightarrow>
     created_tasks (subscribe ws v st) = created_tasks st @ [v]
     \<and> active_scrapers (subscribe ws v st) v = Some Created"
  "active_scrapers st v \<noteq> None \<Longrightarrow>
     created_tasks (subscribe ws v st) = created_tasks st
     \<and> active_scrapers (subscribe ws v st) = active_scrapers st"
  by (auto simp: subscribe_def Let_def split: option.splits)

lemma unsubscribe_fields:
  "video_state_map (unsubscribe ws st) = video_state_map st"
  "active_scrapers (unsubscribe ws st) = active_scrapers st"
  "created_tasks (unsubscribe ws st) = created_tasks st"
  by (simp_all add: unsubscribe_def split: option.splits)

lemma unsubscribe_last:
  "client_video_id st ws = Some v \<Longrightarrow> video_clients st v = Some {ws} \<Longrightarrow>
     video_clients (unsubscribe ws st) v = Some {}"
  by (simp add: unsubscribe_def)

lemma scraper_iteration_stops:
  "active_scrapers st v = Some (Running sc) \<Longrightarrow>
   video_clients st v = None \<or> video_clients st v = Some {} \<Longrightarrow>
     scraper_iteration e v alive items t st = scraper_cleanup v st"
  by (auto simp: scraper_iteration_def)

lemma scraper_cleanup_fields:
  "active_scrapers (scraper_cleanup v st) v = None"
  "video_state_map (scraper_cleanup v st) = video_state_map st"
  "created_tasks (scraper_cleanup v st) = created_tasks st"
  "video_clients (scraper_cleanup v st) = video_clients st"
  "client_video_id (scraper_cleanup v st) = client_video_id st"
  by (simp_all add: scraper_cleanup_def)

lemma scraper_start_keeps_state:
  "video_state_map st v = Some vs \<Longrightarrow> video_state_map (scraper_start v ok t st) v = Some vs"
  by (auto simp: scraper_start_def get_video_state_def scraper_cleanup_def Let_def
      split: option.splits task.splits)

lemma scraper_start_fresh_locals:
  "active_scrapers st v = Some Created \<Longrightarrow>
     active_scrapers (scraper_start v True t st) v
       = Some (Running \<lparr>vibe_batch = [], last_vibe_check = t, last_pulse_time = t,
                        spam_count = 0, msg_count = 0\<rparr>)
     \<and> created_tasks (scraper_start v True t st) = created_tasks st
     \<and> video_clients (scraper_start v True t st) = video_clients st
     \<and> client_video_id (scraper_start v True t st) = client_video_id st"
  by (auto simp: scraper_start_def get_video_state_def Let_def split: option.splits)

lemma handle_item_state:
  "user_message_history (fst (handle_item e (vs, sc, evs) (now, chat)))
     = user_message_history (fst (snd (process_message_v2 e now chat vs)))"
  "session_discovered (fst (handle_item e (vs, sc, evs) (now, chat)))
     = session_discovered (fst (snd (process_message_v2 e now chat vs)))"
  by (simp_all add: handle_item_def Let_def)

lemma process_message_v2_state:
  "user_message_history (fst (snd (process_message_v2 e now chat vs)))
     = (if c_isChatOwner chat \<or> c_isChatModerator chat then user_message_history vs
        else snd (detect_spam_v2 e now (convert_emoji_codes e (c_message chat)) (c_author chat)
               (user_message_history vs)))"
  "session_discovered (fst (snd (process_message_v2 e now chat vs)))
     = snd (extract_ticker_v2 e (convert_emoji_codes e (c_message chat)) (session_discovered vs))"
  by (simp_all add: process_message_v2_def Let_def)

lemma scraper_iteration_runs:
  assumes "active_scrapers st v = Some (Running sc)" "video_clients st v = Some cs" "cs \<noteq> {}"
    "video_state_map st v = Some vs"
  shows "\<exists>sc' vs'.
      active_scrapers (scraper_iteration e v True (Some its) t st) v = Some (Running sc')
      \<and> video_state_map (scraper_iteration e v True (Some its) t st) v = Some vs'
      \<and> user_message_history vs' = user_message_history (fst (foldl (handle_item e) (vs, sc, []) its))
      \<and> session_discovered vs' = session_discovered (fst (foldl (handle_item e) (vs, sc, []) its))
      \<and> video_clients (scraper_iteration e v True (Some its) t st) = video_clients st
      \<and> client_video_id (scraper_iteration e v True (Some its) t st) = client_video_id st
      \<and> created_tasks (scraper_iteration e v True (Some its) t st) = created_tasks st"
  using assms by (simp add: scraper_iteration_def Let_def split: option.splits)

text \<open>
  Claim C5, as the code has it (the second file; the first has no sessions).  Subscribing to a
  video id that has no entry in \<open>active_scrapers\<close> creates exactly one task, and subscribing
  to one that has an entry creates none.  When the last subscriber unsubscribes the client set
  becomes empty, and the next iteration of the task's loop stops the task and removes it from
  \<open>active_scrapers\<close>; the entry of \<open>video_state\<close> is left as it is.  Subscribing again
  creates a new task with new loop locals (an empty vibe batch), which takes up the state the
  video had: history, discovered tickers and pulse buffer are kept, not emptied.
\<close>

theorem session_state_outlives_pipeline:
  "(v \<noteq> [] \<and> active_scrapers st v = None \<longrightarrow>
      created_tasks (subscribe ws v st) = created_tasks st @ [v]
      \<and> active_scrapers (subscribe ws v st) v = Some Created)
   \<and> (active_scrapers st v \<noteq> None \<longrightarrow> created_tasks (subscribe ws v st) = created_tasks st)
   \<and> (client_video_id st ws = Some v \<and> video_clients st v = Some {ws} \<longrightarrow>
      video_clients (unsubscribe ws st) v = Some {})
   \<and> (active_scrapers st v = Some (Running sc) \<and> video_clients st v = Some {} \<longrightarrow>
      active_scrapers (scraper_iteration e v alive items t st) v = None
      \<and> video_state_map (scraper_iteration e v alive items t st) = video_state_map st)
   \<and> (v \<noteq> [] \<and> active_scrapers st v = None \<and> video_state_map st v = Some vs \<longrightarrow>
      video_state_map (scraper_start v True t (subscribe ws v st)) v = Some vs
      \<and> active_scrapers (scraper_start v True t (subscribe ws v st)) v
          = Some (Running \<lparr>vibe_batch = [], last_vibe_check = t, last_pulse_time = t,
                           spam_count = 0, msg_count = 0\<rparr>))"
proof (intro conjI impI)
  assume "v \<noteq> [] \<and> active_scrapers st v = None"
  then show "created_tasks (subscribe ws v st) = created_tasks st @ [v]"
    and "active_scrapers (subscribe ws v st) v = Some Created"
    using subscribe_spawns(1) by blast+
next
  assume "active_scrapers st v \<noteq> None"
  then show "created_tasks (subscribe ws v st) = created_tasks st"
    using subscribe_spawns(2) by blast
next
  assume "client_video_id st ws = Some v \<and> video_clients st v = Some {ws}"
  then show "video_clients (unsubscribe ws st) v = Some {}"
    using unsubscribe_last by blast
next
  assume a: "active_scrapers st v = Some (Running sc) \<and> video_clients st v = Some {}"
  then have "scraper_iteration e v alive items t st = scraper_cleanup v st"
    using scraper_iteration_stops by blast
  then show "active_scrapers (scraper_iteration e v alive items t st) v = None"
    and "video_state_map (scraper_iteration e v alive items t st) = video_state_map st"
    by (simp_all add: scraper_cleanup_fields)
next
  assume a: "v \<noteq> [] \<and> active_scrapers st v = None \<and> video_state_map st v = Some vs"
  then have "video_state_map (subscribe ws v st) v = Some vs"
    by (simp add: subscribe_fields)
  then show "video_state_map (scraper_start v True t (subscribe ws v st)) v = Some vs"
    by (rule scraper_start_keeps_state)
  have "active_scrapers (subscribe ws v st) v = Some Created"
    using a subscribe_spawns(1) by blast
  then show "active_scrapers (scraper_start v True t (subscribe ws v st)) v
          = Some (Running \<lparr>vibe_batch = [], last_vibe_check = t, last_pulse_time = t,
                           spam_count = 0, msg_count = 0\<rparr>)"
    using scraper_start_fresh_locals by blast
qed

lemma first_subscription:
  "active_scrapers (subscribe 7 (U ''vid'') empty_registry) (U ''vid'') = Some Created"
  "video_clients (subscribe 7 (U ''vid'') empty_registry) (U ''vid'') = Some {7}"
  "client_video_id (subscribe 7 (U ''vid'') empty_registry) 7 = Some (U ''vid'')"
  "created_tasks (subscribe 7 (U ''vid'') empty_registry) = [U ''vid'']"
  "video_state_map (subscribe 7 (U ''vid'') empty_registry) (U ''vid'') = None"
  by (simp_all add: subscribe_def empty_registry_def Let_def U_simps)

lemma first_start:
  shows "\<exists>sc. active_scrapers (scraper_start (U ''vid'') True 0 (subscribe 7 (U ''vid'') empty_registry))
      (U ''vid'') = Some (Running sc)"
    and "video_clients (scraper_start (U ''vid'') True 0 (subscribe 7 (U ''vid'') empty_registry))
      (U ''vid'') = Some {7}"
    and "client_video_id (scraper_start (U ''vid'') True 0 (subscribe 7 (U ''vid'') empty_registry)) 7
      = Some (U ''vid'')"
    and "created_tasks (scraper_start (U ''vid'') True 0 (subscribe 7 (U ''vid'') empty_registry))
      = [U ''vid'']"
    and "video_state_map (scraper_start (U ''vid'') True 0 (subscribe 7 (U ''vid'') empty_registry))
      (U ''vid'') = Some fresh_state"
proof -
  note f = scraper_start_fresh_locals[OF first_subscription(1), of 0]
  show "\<exists>sc. active_scrapers (scraper_start (U ''vid'') True 0 (subscribe 7 (U ''vid'') empty_registry))
      (U ''vid'') = Some (Running sc)"
    using f by blast
  show "video_clients (scraper_start (U ''vid'') True 0 (subscribe 7 (U ''vid'') empty_registry))
      (U ''vid'') = Some {7}"
    using f first_subscription(2) by simp
  show "client_video_id (scraper_start (U ''vid'') True 0 (subscribe 7 (U ''vid'') empty_registry)) 7
      = Some (U ''vid'')"
    using f first_subscription(3) by simp
  show "created_tasks (scraper_start (U ''vid'') True 0 (subscribe 7 (U ''vid'') empty_registry))
      = [U ''vid'']"
    using f first_subscription(4) by simp
  show "video_state_map (scraper_start (U ''vid'') True 0 (subscribe 7 (U ''vid'') empty_registry))
      (U ''vid'') = Some fresh_state"
    by (simp add: scraper_start_def get_video_state_def Let_def first_subscription)
qed

theorem session_state_outlives_pipeline_witness:
  "created_tasks (subscribe 7 (U ''vid'') empty_registry) = [U ''vid'']
   \<and> video_clients left_alone (U ''vid'') = Some {}
   \<and> active_scrapers (scraper_iteration env0 (U ''vid'') True (Some []) 2 left_alone) (U ''vid'')
       = None
   \<and> video_state_map (scraper_iteration env0 (U ''vid'') True (Some []) 2 left_alone) (U ''vid'')
       = Some fresh_state"
proof -
  note main = session_state_outlives_pipeline
  have e: "U ''vid'' \<noteq> [] \<and> active_scrapers empty_registry (U ''vid'') = None"
    by (simp add: empty_registry_def U_simps)
  have c1: "created_tasks (subscribe 7 (U ''vid'') empty_registry) = [U ''vid'']"
    using main[of "U ''vid''" empty_registry 7] e by (simp add: empty_registry_def)
  have c2: "video_clients left_alone (U ''vid'') = Some {}"
    unfolding left_alone_def
    using main[of "U ''vid''" "scraper_start (U ''vid'') True 0 (subscribe 7 (U ''vid'') empty_registry)" 7]
      first_start(2,3)
    by blast
  obtain sc where r: "active_scrapers left_alone (U ''vid'') = Some (Running sc)"
    unfolding left_alone_def unsubscribe_fields using first_start(1) by blast
  have s: "video_state_map left_alone (U ''vid'') = Some fresh_state"
    unfolding left_alone_def unsubscribe_fields by (rule first_start(5))
  have "active_scrapers (scraper_iteration env0 (U ''vid'') True (Some []) 2 left_alone) (U ''vid'') = None
      \<and> video_state_map (scraper_iteration env0 (U ''vid'') True (Some []) 2 left_alone) = video_state_map left_alone"
    using main[of "U ''vid''" left_alone 7 sc env0 True "Some []" 2] r c2 by blast
  with c1 c2 s show ?thesis by simp
qed

lemma zzz_dollar: "dollar_match env0 (upper env0 (U ''$zzz'')) = Some (U ''ZZZ'')"
  by (simp add: text_eval)

lemma zzz_discovered: "snd (extract_ticker_v2 env0 (U ''$zzz'') {}) = {U ''ZZZ''}"
proof -
  have "U ''ZZZ'' \<notin> U ` IGNORE_WORDS_v2"
    unfolding U_image_iff by (simp add: IGNORE_WORDS_v2_def)
  then show ?thesis
    by (simp add: extract_ticker_v2_def extract_ticker_core_def Let_def zzz_dollar)
qed

lemma watched_facts:
  shows "\<exists>sc. active_scrapers watched (U ''vid'') = Some (Running sc)"
    and "video_clients watched (U ''vid'') = Some {7}"
    and "client_video_id watched 7 = Some (U ''vid'')"
    and "created_tasks watched = [U ''vid'']"
    and "history_of watched (U ''vid'') (U ''bob'') \<noteq> None"
    and "discovered_of watched (U ''vid'') = {U ''ZZZ''}"
proof -
  define s2 where "s2 = scraper_start (U ''vid'') True 0 (subscribe 7 (U ''vid'') empty_registry)"
  obtain sc where sc: "active_scrapers s2 (U ''vid'') = Some (Running sc)"
    unfolding s2_def using first_start(1) by blast
  have cl: "video_clients s2 (U ''vid'') = Some {7}" and ne: "{7::nat} \<noteq> {}"
    and vs: "video_state_map s2 (U ''vid'') = Some fresh_state"
    unfolding s2_def by (simp_all add: first_start)
  obtain sc' vs' where
    r: "active_scrapers watched (U ''vid'') = Some (Running sc')"
      "video_state_map watched (U ''vid'') = Some vs'"
      "user_message_history vs'
         = user_message_history (fst (foldl (handle_item env0) (fresh_state, sc, []) [(1, bob_marks_zzz)]))"
      "session_discovered vs'
         = session_discovered (fst (foldl (handle_item env0) (fresh_state, sc, []) [(1, bob_marks_zzz)]))"
      "video_clients watched = video_clients s2"
      "client_video_id watched = client_video_id s2"
      "created_tasks watched = created_tasks s2"
    unfolding watched_def s2_def[symmetric]
    using scraper_iteration_runs[OF sc cl ne vs, of env0 "[(1, bob_marks_zzz)]" 1] by blast
  show "\<exists>sc. active_scrapers watched (U ''vid'') = Some (Running sc)" using r(1) by blast
  show "video_clients watched (U ''vid'') = Some {7}" using r(5) cl by simp
  show "client_video_id watched 7 = Some (U ''vid'')"
    using r(6) first_start(3) by (simp add: s2_def)
  show "created_tasks watched = [U ''vid'']" using r(7) first_start(4) by (simp add: s2_def)
  have "user_message_history vs' (U ''bob'') \<noteq> None"
    unfolding r(3) foldl.simps handle_item_state process_message_v2_state
    by (simp add: bob_marks_zzz_def detect_spam_v2_def detect_spam_core_history)
  then show "history_of watched (U ''vid'') (U ''bob'') \<noteq> None"
    by (simp add: history_of_def r(2))
  have "session_discovered vs' = {U ''ZZZ''}"
    unfolding r(4) foldl.simps handle_item_state process_message_v2_state
    by (simp add: bob_marks_zzz_def env0_convert fresh_state_def zzz_discovered)
  then show "discovered_of watched (U ''vid'') = {U ''ZZZ''}"
    by (simp add: discovered_of_def r(2))
qed

text \<open>
  After the task has stopped and the client has subscribed again, a second task has been
  created for the video, and it finds the history and the discovered tickers of the first
  one: \<open>bob\<close> still has his entry and \<open>ZZZ\<close> is still discovered.  Claim C5 as stated (state
  freed, fresh pipeline with empty history) fails here.
\<close>

theorem resubscribed_session_keeps_history:
  "active_scrapers stopped (U ''vid'') = None
   \<and> created_tasks watched_again = [U ''vid'', U ''vid'']
   \<and> history_of watched_again (U ''vid'') (U ''bob'') \<noteq> None
   \<and> discovered_of watched_again (U ''vid'') = {U ''ZZZ''}"
proof -
  define s4 where "s4 = unsubscribe 7 watched"
  obtain sc where sc: "active_scrapers s4 (U ''vid'') = Some (Running sc)"
    unfolding s4_def unsubscribe_fields using watched_facts(1) by blast
  have cl: "video_clients s4 (U ''vid'') = Some {}"
    unfolding s4_def by (rule unsubscribe_last[OF watched_facts(3) watched_facts(2)])
  have st: "stopped = scraper_cleanup (U ''vid'') s4"
    unfolding stopped_def s4_def[symmetric]
    using scraper_iteration_stops[OF sc] cl by blast
  have a: "active_scrapers stopped (U ''vid'') = None"
    unfolding st by (rule scraper_cleanup_fields)
  have m: "video_state_map stopped = video_state_map watched"
    unfolding st scraper_cleanup_fields s4_def unsubscribe_fields ..
  have c: "created_tasks stopped = [U ''vid'']"
    unfolding st scraper_cleanup_fields s4_def unsubscribe_fields by (rule watched_facts(4))
  have v: "U ''vid'' \<noteq> []" by (simp add: U_simps)
  note sp = subscribe_spawns(1)[OF v a, of 7]
  have c2: "created_tasks watched_again = [U ''vid'', U ''vid'']"
    unfolding watched_again_def using scraper_start_fresh_locals[of "subscribe 7 (U ''vid'') stopped"] sp c
    by simp
  obtain vs where vs: "video_state_map watched (U ''vid'') = Some vs"
    using watched_facts(5) by (auto simp: history_of_def split: option.splits)
  have "video_state_map (subscribe 7 (U ''vid'') stopped) (U ''vid'') = Some vs"
    unfolding subscribe_fields m by (rule vs)
  then have k: "video_state_map watched_again (U ''vid'') = Some vs"
    unfolding watched_again_def by (rule scraper_start_keeps_state)
  have "history_of watched_again (U ''vid'') (U ''bob'') = history_of watched (U ''vid'') (U ''bob'')"
    "discovered_of watched_again (U ''vid'') = discovered_of watched (U ''vid'')"
    by (simp_all add: history_of_def discovered_of_def k vs)
  then show ?thesis using a c2 watched_facts(5,6) by simp
qed

end
